theory Spec2Isabelle
  imports Main "HOL-Library.Word" "HOL-Library.AList"
begin

section \<open>Machine types\<close>

text \<open>
  Go's \<open>uint32\<close> heights are 32-bit words (subtraction wraps), \<open>common.Fixed64\<close> is an
  \<open>int64\<close>: a 64-bit word whose comparisons read it signed.  Byte slices are lists of
  8-bit words; the fixed-size hashes \<open>Uint168\<close> and \<open>Uint256\<close> are byte lists too.
\<close>

type_synonym uint32 = "32 word"
type_synonym Fixed64 = "64 word"
type_synonym bytes = "8 word list"
type_synonym Uint168 = "8 word list"
type_synonym Uint256 = "8 word list"
type_synonym addr = nat

definition MaxUint32 :: uint32 where
  "MaxUint32 = 4294967295"

definition IrreversibleHeight :: uint32 where
  "IrreversibleHeight = 6"

definition f64_less :: "Fixed64 \<Rightarrow> Fixed64 \<Rightarrow> bool" where
  "f64_less a b = (sint a < sint b)"

definition f64_le :: "Fixed64 \<Rightarrow> Fixed64 \<Rightarrow> bool" where
  "f64_le a b = (sint a \<le> sint b)"

datatype error =
    NilPointerDereference
  | NilMapAssignment
  | IndexOutOfRange
  | SliceBoundsOutOfRange
  | TypeAssertionFailed
  | CheckFailed string

text \<open>Sequencing of steps that may panic: the first panic ends the run.\<close>

definition bindE :: "error + 'a \<Rightarrow> ('a \<Rightarrow> error + 'b) \<Rightarrow> error + 'b" where
  "bindE m k = (case m of Inl e \<Rightarrow> Inl e | Inr x \<Rightarrow> k x)"

text \<open>A \<open>for _, x := range xs\<close> loop whose body threads the state and may panic.\<close>

primrec forEach :: "'a list \<Rightarrow> ('a \<Rightarrow> 's \<Rightarrow> error + 's) \<Rightarrow> 's \<Rightarrow> error + 's" where
  "forEach [] body s = Inr s"
| "forEach (x # xs) body s = bindE (body x s) (forEach xs body)"

text \<open>\<open>hex.EncodeToString\<close>: two lower-case hexadecimal digits per byte.\<close>

definition hexdigit :: "nat \<Rightarrow> char" where
  "hexdigit n = ''0123456789abcdef'' ! (n mod 16)"

definition EncodeToString :: "bytes \<Rightarrow> string" where
  "EncodeToString bs = concat (map (\<lambda>b. [hexdigit (unat b div 16), hexdigit (unat b mod 16)]) bs)"

section \<open>Producers and the state key frame\<close>

datatype ProducerState = Pending | Active | Inactive | Canceled | Illegal | Returned

datatype ConsesusAlgorithm = DPOS | POW

datatype VoteType = Delegate | CRC | CRCProposal | CRCImpeachment | DposV2

text \<open>\<open>payload.ProducerInfo\<close>, with the fields the state engine reads.\<close>

record ProducerInfo =
  OwnerPublicKey :: bytes
  NodePublicKey :: bytes
  NickName :: string
  StakeUntil :: uint32

record VotesWithLockTime =
  Candidate :: bytes
  Votes :: Fixed64
  LockTime :: uint32

record DetailedVoteInfo =
  StakeProgramHash :: Uint168
  TransactionHash :: Uint256
  BlockHeight :: uint32
  PayloadVersion :: "8 word"
  VoteType :: VoteType
  Info :: VotesWithLockTime

text \<open>
  The contents of a \<open>payload.Voting\<close>.  Field names that several structs share are
  written with the record's name in front.
\<close>

record VotesContent =
  VoteType :: VoteType
  VotesInfo :: "VotesWithLockTime list"

record RenewalVotesContent =
  ReferKey :: Uint256
  VotesInfo :: VotesWithLockTime

text \<open>
  The \<open>Producer\<close> struct.  \<open>detailedDPoSV2Votes\<close> is a Go map of maps; a nil map
  (\<open>None\<close>) can be read and deleted from, and panics on assignment.
\<close>

record Producer =
  info :: ProducerInfo
  state :: ProducerState
  registerHeight :: uint32
  cancelHeight :: uint32
  inactiveSince :: uint32
  activateRequestHeight :: uint32
  illegalHeight :: uint32
  penalty :: Fixed64
  votes :: Fixed64
  dposV2Votes :: Fixed64
  detailedDPoSV2Votes :: "(Uint168 \<rightharpoonup> (Uint256 \<rightharpoonup> DetailedVoteInfo)) option"
  depositAmount :: Fixed64
  totalAmount :: Fixed64
  depositHash :: Uint168
  selected :: bool
  randomCandidateInactiveCount :: uint32
  inactiveCountingHeight :: uint32
  lastUpdateInactiveHeight :: uint32
  inactiveCount :: uint32

text \<open>Go's zero value of a \<open>Producer\<close>, which fills every address not yet allocated.\<close>

definition zeroProducer :: Producer where
  "zeroProducer =
     \<lparr>info = \<lparr>OwnerPublicKey = [], NodePublicKey = [], NickName = [], StakeUntil = 0\<rparr>,
      state = Pending, registerHeight = 0, cancelHeight = 0, inactiveSince = 0,
      activateRequestHeight = 0, illegalHeight = 0, penalty = 0, votes = 0, dposV2Votes = 0,
      detailedDPoSV2Votes = None, depositAmount = 0, totalAmount = 0, depositHash = [],
      selected = False, randomCandidateInactiveCount = 0, inactiveCountingHeight = 0,
      lastUpdateInactiveHeight = 0, inactiveCount = 0\<rparr>"

text \<open>The fields of \<open>config.Params\<close> that the modelled functions read.\<close>

record ChainParams =
  CRCOnlyDPOSHeight :: uint32
  RevertToPOWStartHeight :: uint32
  ChangeCommitteeNewCRHeight :: uint32
  EnableActivateIllegalHeight :: uint32
  InactivePenalty :: Fixed64
  EmergencyInactivePenalty :: Fixed64
  IllegalPenalty :: Fixed64
  DposV2EffectiveVotes :: Fixed64
  MinTransactionFee :: Fixed64

record OutputInfo =
  Recipient :: Uint168
  Amount :: Fixed64

text \<open>
  The council hooks \<open>tryUpdateCRMemberIllegal\<close> and \<open>tryRevertCRMemberIllegal\<close> act on
  the council's own state, outside this engine; the model records each call.
\<close>

datatype MemberState = MemberElected | MemberImpeached | MemberTerminated | MemberReturned
  | MemberInactive | MemberIllegal

datatype CRHookCall =
    UpdateCRMemberIllegal Uint168 uint32
  | RevertCRMemberIllegal Uint168 MemberState uint32

text \<open>
  The state key frame.  The producer maps of the source hold \<open>*Producer\<close> pointers that
  several maps share, so the producers live in an explicit store \<open>heap\<close> and the maps
  hold addresses; \<open>nextAddr\<close> is the next unused address.  The maps that the source
  iterates over are association lists (\<open>m[k] = v\<close> is \<open>AList.update\<close>, \<open>delete\<close> is
  \<open>AList.delete\<close>, a lookup is \<open>map_of\<close>); Go leaves the iteration order open, the
  lists fix it to insertion order.  Maps that are only looked up are partial functions,
  and maps to \<open>struct{}\<close> are sets.  The field \<open>Votes\<close> of the source (the refer keys
  of the live vote outputs) is \<open>VotesSet\<close> here.
\<close>

record StateKeyFrame =
  heap :: "addr \<Rightarrow> Producer"
  nextAddr :: addr
  NodeOwnerKeys :: "(string \<times> string) list"
  PendingProducers :: "(string \<times> addr) list"
  ActivityProducers :: "(string \<times> addr) list"
  DposV2ActivityProducers :: "(string \<times> addr) list"
  InactiveProducers :: "(string \<times> addr) list"
  CanceledProducers :: "(string \<times> addr) list"
  PendingCanceledProducers :: "(string \<times> addr) list"
  IllegalProducers :: "(string \<times> addr) list"
  DposV2EffectedProducers :: "(string \<times> addr) list"
  Nicknames :: "string set"
  ProducerDepositMap :: "Uint168 set"
  DepositOutputs :: "string \<rightharpoonup> Fixed64"
  VotesSet :: "string set"
  DposVotes :: "Uint168 \<rightharpoonup> Fixed64"
  DposV2Votes :: "Uint168 \<rightharpoonup> Fixed64"
  CRVotes :: "Uint168 \<rightharpoonup> Fixed64"
  CRImpeachmentVotes :: "Uint168 \<rightharpoonup> Fixed64"
  DposV2VoteRights :: "Uint168 \<rightharpoonup> Fixed64"
  DetailDPoSV1Votes :: "Uint256 \<rightharpoonup> DetailedVoteInfo"
  SpecialTxHashes :: "Uint256 set"
  EmergencyInactiveArbiters :: "string set"
  WithdrawableTxInfo :: "Uint256 \<rightharpoonup> OutputInfo"
  DposV2RewardInfo :: "string \<rightharpoonup> Fixed64"
  DposV2RewardClaimingInfo :: "string \<rightharpoonup> Fixed64"
  DposV2RewardClaimedInfo :: "string \<rightharpoonup> Fixed64"
  CRHookCalls :: "CRHookCall list"
  ConsensusAlgorithm :: ConsesusAlgorithm
  NoProducers :: bool
  NoClaimDPOSNode :: bool
  NeedNextTurnDPOSInfo :: bool
  NeedRevertToDPOSTX :: bool
  RevertToPOWBlockHeight :: uint32
  VersionStartHeight :: uint32
  VersionEndHeight :: uint32
  DPOSWorkHeight :: uint32
  DPOSStartHeight :: uint32
  LastIrreversibleHeight :: uint32

text \<open>A history closure runs on the key frame and may panic.\<close>

type_synonym closure = "StateKeyFrame \<Rightarrow> error + StateKeyFrame"

record State =
  frame :: StateKeyFrame
  History :: "(uint32 \<times> closure \<times> closure) list"

text \<open>
  Modelled from the spec: \<open>utils.History\<close> is not among the sources.  \<open>Append\<close> records
  the pair \<open>(do, undo)\<close> at the given height and immediately executes \<open>do\<close>.
\<close>

definition History_Append :: "uint32 \<Rightarrow> closure \<Rightarrow> closure \<Rightarrow> State \<Rightarrow> error + State" where
  "History_Append height do_fn undo_fn s =
     (case do_fn (frame s) of
        Inl e \<Rightarrow> Inl e
      | Inr f \<Rightarrow> Inr (s\<lparr>frame := f, History := History s @ [(height, do_fn, undo_fn)]\<rparr>))"

text \<open>A write through a \<open>*Producer\<close> pointer.\<close>

definition updProducer :: "addr \<Rightarrow> (Producer \<Rightarrow> Producer) \<Rightarrow> StateKeyFrame \<Rightarrow> StateKeyFrame" where
  "updProducer a g f = f\<lparr>heap := (heap f)(a := g (heap f a))\<rparr>"

section \<open>Setting a producer inactive\<close>

definition setInactiveProducer ::
  "ChainParams \<Rightarrow> addr \<Rightarrow> string \<Rightarrow> uint32 \<Rightarrow> bool \<Rightarrow> StateKeyFrame \<Rightarrow> StateKeyFrame" where
  "setInactiveProducer cp producer key height emergency f =
     (let f1 = updProducer producer
                 (\<lambda>p. p\<lparr>inactiveSince := height, activateRequestHeight := MaxUint32,
                         state := Inactive, selected := False\<rparr>) f;
          f2 = f1\<lparr>InactiveProducers := AList.update key producer (InactiveProducers f1)\<rparr>;
          f3 = f2\<lparr>ActivityProducers := AList.delete key (ActivityProducers f2)\<rparr>;
          f4 = (if StakeUntil (info (heap f3 producer)) \<noteq> 0
                then f3\<lparr>DposV2ActivityProducers := AList.delete key (DposV2ActivityProducers f3)\<rparr>
                else f3)
      in if height < VersionStartHeight f4 \<or> VersionEndHeight f4 \<le> height then
           (if \<not> emergency then
              (if ChangeCommitteeNewCRHeight cp \<le> height
               then updProducer producer (\<lambda>p. p\<lparr>penalty := penalty p + InactivePenalty cp\<rparr>) f4
               else f4)
            else updProducer producer (\<lambda>p. p\<lparr>penalty := penalty p + EmergencyInactivePenalty cp\<rparr>) f4)
         else f4)"

definition revertSettingInactiveProducer ::
  "ChainParams \<Rightarrow> addr \<Rightarrow> string \<Rightarrow> uint32 \<Rightarrow> bool \<Rightarrow> StateKeyFrame \<Rightarrow> StateKeyFrame" where
  "revertSettingInactiveProducer cp producer key height emergency f =
     (let f1 = updProducer producer
                 (\<lambda>p. p\<lparr>inactiveSince := 0, activateRequestHeight := MaxUint32, state := Active\<rparr>) f;
          f2 = f1\<lparr>ActivityProducers := AList.update key producer (ActivityProducers f1)\<rparr>;
          f3 = (if StakeUntil (info (heap f2 producer)) \<noteq> 0
                then f2\<lparr>DposV2ActivityProducers := AList.update key producer (DposV2ActivityProducers f2)\<rparr>
                else f2);
          f4 = f3\<lparr>InactiveProducers := AList.delete key (InactiveProducers f3)\<rparr>
      in if height < VersionStartHeight f4 \<or> VersionEndHeight f4 \<le> height then
           (let pen = (if emergency then EmergencyInactivePenalty cp else InactivePenalty cp)
            in if f64_less (penalty (heap f4 producer)) pen
               then updProducer producer (\<lambda>p. p\<lparr>penalty := 0\<rparr>) f4
               else updProducer producer (\<lambda>p. p\<lparr>penalty := penalty p - pen\<rparr>) f4)
         else f4)"

section \<open>Irreversible height\<close>


text \<open>
  \<open>IsIrreversible\<close>.  \<open>detachNodesLen\<close> is a Go \<open>int\<close>; \<open>uint32(detachNodesLen)\<close> keeps its
  low 32 bits, which is \<open>word_of_int\<close>.
\<close>

definition IsIrreversible :: "ChainParams \<Rightarrow> StateKeyFrame \<Rightarrow> uint32 \<Rightarrow> int \<Rightarrow> bool" where
  "IsIrreversible cp f curBlockHeight detachNodesLen =
     (if curBlockHeight \<le> CRCOnlyDPOSHeight cp then False
      else if curBlockHeight - word_of_int detachNodesLen - 1 \<le> LastIrreversibleHeight f then True
      else if RevertToPOWStartHeight cp \<le> curBlockHeight then
        (if ConsensusAlgorithm f = DPOS then
           (if uint IrreversibleHeight < detachNodesLen then True else False)
         else False)
      else (if uint IrreversibleHeight < detachNodesLen then True else False))"

section \<open>Transactions\<close>

record Input =
  PreviousTxID :: Uint256
  PreviousIndex :: "16 word"
  Sequence :: uint32

record CandidateVotes =
  Candidate :: bytes
  Votes :: Fixed64

record VoteContent =
  VoteType :: VoteType
  CandidateVotes :: "CandidateVotes list"

record VoteOutput =
  Version :: "8 word"
  Contents :: "VoteContent list"

text \<open>The payload of an output is an interface value: nil, or one of the output payloads.\<close>

datatype OutputPayload = NilOutputPayload | DefaultOutput | VoteOutputPayload VoteOutput
  | OtherOutputPayload

datatype OutputType = OTNone | OTVote | OTDposV2Vote | OTOther

record Output =
  Value :: Fixed64
  ProgramHash :: Uint168
  Type :: OutputType
  Payload :: OutputPayload

record Program =
  Code :: bytes
  Parameter :: bytes

datatype TxType =
    CoinBase | RegisterAsset | TransferAsset | Record | Deploy
  | RegisterProducer | CancelProducer | UpdateProducer | ReturnDepositCoin | ActivateProducer
  | IllegalProposalEvidence | IllegalVoteEvidence | IllegalBlockEvidence
  | IllegalSidechainEvidence | InactiveArbitrators | UpdateVersion | NextTurnDPOSInfo
  | CRCouncilMemberClaimNode | RevertToPOW | RevertToDPOS
  | ExchangeVotes | Voting | DposV2ClaimReward | DposV2ClaimRewardRealWithdraw
  | OtherTxType "8 word"

text \<open>
  The transaction payloads the state engine handles, each with the fields it reads:
  the owner key of a \<open>ProcessProducer\<close>, the node key of an \<open>ActivateProducer\<close>, the
  exchange value, the contents and renewal contents of a \<open>Voting\<close>, the sponsor, signer or
  signer lists of the illegal evidences, the arbitrators of an \<open>InactiveArbitrators\<close>,
  start and end height of an \<open>UpdateVersion\<close>, node key and council DID of a claim, the
  work height interval of a \<open>RevertToDPOS\<close>, the amount of a claim and the withdraw
  transaction hashes.
\<close>

datatype Payload =
    ProducerInfoPayload ProducerInfo
  | ProcessProducerPayload bytes
  | ActivateProducerPayload bytes
  | ExchangeVotesPayload Fixed64
  | VotingPayload "VotesContent list" "RenewalVotesContent list"
  | DPOSIllegalProposalsPayload bytes
  | DPOSIllegalVotesPayload bytes
  | DPOSIllegalBlocksPayload "bytes list" "bytes list"
  | SidechainIllegalDataPayload bytes
  | InactiveArbitratorsPayload "bytes list"
  | UpdateVersionPayload uint32 uint32
  | NextTurnDPOSInfoPayload
  | CRCouncilMemberClaimNodePayload bytes Uint168
  | RevertToPOWPayload
  | RevertToDPOSPayload uint32
  | DposV2ClaimRewardPayload Fixed64
  | DposV2ClaimRewardRealWithdrawPayload "Uint256 list"
  | OtherPayload

text \<open>
  A transaction as the engine sees it through \<open>interfaces.Transaction\<close>.
  \<open>SpecialTxHash\<close> is the result of \<open>GetSpecialTxHash()\<close>, \<open>None\<close> when it returns an error.
\<close>

record Transaction =
  TxType :: TxType
  Version :: "8 word"
  PayloadVersion :: "8 word"
  Payload :: Payload
  Inputs :: "Input list"
  Outputs :: "Output list"
  Programs :: "Program list"
  Hash :: Uint256
  SpecialTxHash :: "Uint256 option"

record CRMember =
  DID :: Uint168
  Code :: bytes
  DPOSPublicKey :: bytes
  MemberState :: MemberState

text \<open>
  What the engine calls outside the sources: the hash and address functions of the
  packages \<open>contract\<close> and \<open>common\<close>, the hooks given to \<open>NewState\<close>, and the constant
  \<open>state.MinDepositAmount\<close> of the council package.  They are parameters of the model.
  A function that returns an error in Go returns \<open>None\<close> for it.  \<open>GetTxReference\<close> maps
  the inputs of a transaction, by their position, to the outputs they spend.
\<close>

record Env =
  PublicKeyToDepositProgramHash :: "bytes \<Rightarrow> Uint168 option"
  PublicKeyToStandardProgramHash :: "bytes \<Rightarrow> Uint168 option"
  StakeProgramHashOfCode :: "bytes \<Rightarrow> Uint168 option"
  ToAddress :: "Uint168 \<Rightarrow> string"
  IsDepositProgramHash :: "Uint168 \<Rightarrow> bool"
  OutPointReferKey :: "Uint256 \<Rightarrow> 16 word \<Rightarrow> string"
  InputReferKey :: "Input \<Rightarrow> string"
  DetailedVoteInfoReferKey :: "DetailedVoteInfo \<Rightarrow> Uint256"
  GetTxReference :: "Transaction \<Rightarrow> (nat \<rightharpoonup> Output) option"
  getCRMembers :: "CRMember list option"
  MinDepositAmount :: Fixed64

text \<open>Constants of the packages \<open>common\<close>, \<open>outputpayload\<close> and \<open>payload\<close>.\<close>

definition TxVersion09 :: "8 word" where
  "TxVersion09 = 9"

definition VoteProducerVersion :: "8 word" where
  "VoteProducerVersion = 0"

definition VoteVersion :: "8 word" where
  "VoteVersion = 0"

definition RenewalVoteVersion :: "8 word" where
  "RenewalVoteVersion = 1"

section \<open>Looking producers up\<close>

definition getProducerKey :: "StateKeyFrame \<Rightarrow> bytes \<Rightarrow> string" where
  "getProducerKey f publicKey =
     (let key = EncodeToString publicKey
      in case map_of (NodeOwnerKeys f) key of Some owner \<Rightarrow> owner | None \<Rightarrow> key)"

definition getProducerByOwnerPublicKey :: "StateKeyFrame \<Rightarrow> string \<Rightarrow> addr option" where
  "getProducerByOwnerPublicKey f key =
     (if map_of (ActivityProducers f) key \<noteq> None then map_of (ActivityProducers f) key
      else if map_of (CanceledProducers f) key \<noteq> None then map_of (CanceledProducers f) key
      else if map_of (IllegalProducers f) key \<noteq> None then map_of (IllegalProducers f) key
      else if map_of (PendingProducers f) key \<noteq> None then map_of (PendingProducers f) key
      else if map_of (InactiveProducers f) key \<noteq> None then map_of (InactiveProducers f) key
      else None)"

definition getProducer :: "StateKeyFrame \<Rightarrow> bytes \<Rightarrow> addr option" where
  "getProducer f publicKey = getProducerByOwnerPublicKey f (getProducerKey f publicKey)"

text \<open>
  \<open>getDPoSV2Producer\<close> reads \<open>produer.info.StakeUntil\<close> before any nil test: with no
  matching producer the read dereferences nil and panics.
\<close>

definition getDPoSV2Producer :: "StateKeyFrame \<Rightarrow> bytes \<Rightarrow> error + addr option" where
  "getDPoSV2Producer f publicKey =
     (let key = getProducerKey f publicKey
      in case getProducerByOwnerPublicKey f key of
           None \<Rightarrow> Inl NilPointerDereference
         | Some produer \<Rightarrow>
             if StakeUntil (info (heap f produer)) = 0 then Inr None else Inr (Some produer))"

text \<open>
  \<open>GetDetailedDPoSV2Votes\<close> returns the vote found (the zero value when there is none) and
  whether the error is nil: the second lookup overwrites the error of the first, and a
  lookup in a nil map finds nothing.
\<close>

definition zeroDetailedVoteInfo :: DetailedVoteInfo where
  "zeroDetailedVoteInfo =
     \<lparr>StakeProgramHash = [], TransactionHash = [], BlockHeight = 0, PayloadVersion = 0,
      DetailedVoteInfo.VoteType = Delegate,
      Info = \<lparr>VotesWithLockTime.Candidate = [], VotesWithLockTime.Votes = 0, LockTime = 0\<rparr>\<rparr>"

definition GetDetailedDPoSV2Votes ::
  "Producer \<Rightarrow> Uint168 \<Rightarrow> Uint256 \<Rightarrow> DetailedVoteInfo \<times> bool" where
  "GetDetailedDPoSV2Votes p stakeAddress referKey =
     (case detailedDPoSV2Votes p of
        None \<Rightarrow> (zeroDetailedVoteInfo, False)
      | Some m \<Rightarrow>
          (case m stakeAddress of
             None \<Rightarrow> (zeroDetailedVoteInfo, False)
           | Some votesOfStake \<Rightarrow>
               (case votesOfStake referKey of
                  None \<Rightarrow> (zeroDetailedVoteInfo, False)
                | Some vote \<Rightarrow> (vote, True))))"

section \<open>Checking a Voting transaction\<close>




text \<open>
  The body of the renewal loop of \<open>SpecialContextCheck\<close>, for one renewal content:
  \<open>state.GetProducer\<close> may return nil, and the call on it then panics.
\<close>

definition checkRenewalContent ::
  "StateKeyFrame \<Rightarrow> Uint168 \<Rightarrow> RenewalVotesContent \<Rightarrow> error + unit" where
  "checkRenewalContent f stakeProgramHash content =
     (case getProducer f (VotesWithLockTime.Candidate (RenewalVotesContent.VotesInfo content)) of
        None \<Rightarrow> Inl NilPointerDereference
      | Some producer \<Rightarrow>
          (case GetDetailedDPoSV2Votes (heap f producer) stakeProgramHash (ReferKey content) of
             (vote, found) \<Rightarrow>
               if \<not> found then Inl (CheckFailed ''referKey not found in producer'')
               else if DetailedVoteInfo.VoteType vote \<noteq> DposV2
               then Inl (CheckFailed ''invalid vote type'')
               else if BlockHeight vote < LockTime (RenewalVotesContent.VotesInfo content)
               then Inl (CheckFailed ''invalid lock time'')
               else if VotesWithLockTime.Votes (Info vote) \<noteq>
                       VotesWithLockTime.Votes (RenewalVotesContent.VotesInfo content)
               then Inl (CheckFailed ''votes not equal'')
               else if VotesWithLockTime.Candidate (Info vote) \<noteq>
                       VotesWithLockTime.Candidate (RenewalVotesContent.VotesInfo content)
               then Inl (CheckFailed ''candidate should be the same one'')
               else Inr ()))"

definition checkRenewalContents ::
  "StateKeyFrame \<Rightarrow> Uint168 \<Rightarrow> RenewalVotesContent list \<Rightarrow> error + unit" where
  "checkRenewalContents f stakeProgramHash contents =
     forEach contents (\<lambda>content u. checkRenewalContent f stakeProgramHash content) ()"

section \<open>Producer transactions\<close>

text \<open>Go's \<open>m[k]\<close> on a map of amounts: the zero value for a missing key.\<close>

definition mapGet :: "('k \<rightharpoonup> Fixed64) \<Rightarrow> 'k \<Rightarrow> Fixed64" where
  "mapGet m k = (case m k of None \<Rightarrow> 0 | Some v \<Rightarrow> v)"

text \<open>
  \<open>updateProducerInfo\<close> runs inside a closure.  It looks the producer up by the owner key
  of \<open>origin\<close> and writes \<open>producer.info\<close> last: with no such producer that write panics.
\<close>

definition updateProducerInfo :: "ProducerInfo \<Rightarrow> ProducerInfo \<Rightarrow> closure" where
  "updateProducerInfo origin update f =
     (let producer = getProducer f (OwnerPublicKey origin);
          f1 = (if NickName origin \<noteq> NickName update
                then f\<lparr>Nicknames := insert (NickName update) (Nicknames f - {NickName origin})\<rparr>
                else f);
          f2 = (if NodePublicKey origin \<noteq> NodePublicKey update
                then f1\<lparr>NodeOwnerKeys :=
                        AList.update (EncodeToString (NodePublicKey update))
                          (EncodeToString (OwnerPublicKey origin))
                          (AList.delete (EncodeToString (NodePublicKey origin)) (NodeOwnerKeys f1))\<rparr>
                else f1)
      in case producer of
           None \<Rightarrow> Inl NilPointerDereference
         | Some p \<Rightarrow> Inr (updProducer p (\<lambda>pr. pr\<lparr>info := update\<rparr>) f2))"

definition updateProducer :: "ProducerInfo \<Rightarrow> uint32 \<Rightarrow> State \<Rightarrow> error + State" where
  "updateProducer info' height s =
     (case getProducer (frame s) (OwnerPublicKey info') of
        None \<Rightarrow> Inl NilPointerDereference
      | Some producer \<Rightarrow>
          (let producerInfo = info (heap (frame s) producer)
           in History_Append height
                (updateProducerInfo producerInfo info')
                (updateProducerInfo info' producerInfo) s))"

text \<open>
  The loop of \<open>registerProducer\<close> over the outputs: the amount sent to the deposit
  program hash, and the refer keys and values of those outputs.
\<close>

definition registerDepositOutputs ::
  "Env \<Rightarrow> Uint256 \<Rightarrow> Uint168 \<Rightarrow> Output list \<Rightarrow> Fixed64 \<times> (string \<times> Fixed64) list" where
  "registerDepositOutputs env txHash programHash outputs =
     fold (\<lambda>(i, output) (amount, depositOutputs).
             if ProgramHash output = programHash
             then (amount + Value output,
                   AList.update (OutPointReferKey env txHash (of_nat i)) (Value output)
                     depositOutputs)
             else (amount, depositOutputs))
          (enumerate 0 outputs) (0, [])"

text \<open>
  \<open>registerProducer\<close>.  The error of \<open>PublicKeyToDepositProgramHash\<close> is ignored and the
  hash pointer dereferenced: in the loop when there is an output, in the struct literal
  when the producer is new.  The new \<open>Producer\<close> is allocated at \<open>nextAddr\<close>.
\<close>

definition registerProducer :: "Env \<Rightarrow> Transaction \<Rightarrow> uint32 \<Rightarrow> State \<Rightarrow> error + State" where
  "registerProducer env tx height s =
     (case Transaction.Payload tx of
        ProducerInfoPayload info' \<Rightarrow>
          (let nickname = NickName info';
               nodeKey = EncodeToString (NodePublicKey info');
               ownerKey = EncodeToString (OwnerPublicKey info')
           in case PublicKeyToDepositProgramHash env (OwnerPublicKey info') of
                None \<Rightarrow>
                  if Outputs tx = [] \<and> getProducer (frame s) (NodePublicKey info') \<noteq> None
                  then updateProducer info' height s
                  else Inl NilPointerDereference
              | Some programHash \<Rightarrow>
                  (case registerDepositOutputs env (Hash tx) programHash (Outputs tx) of
                     (amount, depositOutputs) \<Rightarrow>
                       if getProducer (frame s) (NodePublicKey info') = None then
                         (let producer = nextAddr (frame s);
                              s1 = s\<lparr>frame := (frame s)
                                     \<lparr>heap := (heap (frame s))
                                        (producer := zeroProducer
                                           \<lparr>info := info', registerHeight := height, votes := 0,
                                            dposV2Votes := 0, inactiveSince := 0,
                                            inactiveCount := 0,
                                            randomCandidateInactiveCount := 0, penalty := 0,
                                            activateRequestHeight := MaxUint32,
                                            depositAmount := MinDepositAmount env,
                                            totalAmount := amount,
                                            depositHash := programHash\<rparr>),
                                      nextAddr := producer + 1\<rparr>\<rparr>
                          in History_Append height
                               (\<lambda>f. Inr (f\<lparr>Nicknames := insert nickname (Nicknames f),
                                            NodeOwnerKeys := AList.update nodeKey ownerKey (NodeOwnerKeys f),
                                            PendingProducers :=
                                              AList.update ownerKey producer (PendingProducers f),
                                            ProducerDepositMap := insert programHash (ProducerDepositMap f),
                                            DepositOutputs :=
                                              fold (\<lambda>(k, v) m. m(k \<mapsto> v)) depositOutputs
                                                (DepositOutputs f)\<rparr>))
                               (\<lambda>f. Inr (f\<lparr>Nicknames := Nicknames f - {nickname},
                                            NodeOwnerKeys := AList.delete nodeKey (NodeOwnerKeys f),
                                            PendingProducers := AList.delete ownerKey (PendingProducers f),
                                            ProducerDepositMap := ProducerDepositMap f - {programHash},
                                            DepositOutputs :=
                                              fold (\<lambda>(k, v) m. m(k := None)) depositOutputs
                                                (DepositOutputs f)\<rparr>))
                               s1)
                       else updateProducer info' height s))
      | _ \<Rightarrow> Inl TypeAssertionFailed)"

text \<open>The two closures of \<open>cancelProducer\<close>.\<close>

definition cancelProducer_do :: "addr \<Rightarrow> string \<Rightarrow> ProducerState \<Rightarrow> uint32 \<Rightarrow> closure" where
  "cancelProducer_do producer key oriState height f =
     (let f1 = updProducer producer (\<lambda>p. p\<lparr>state := Canceled, cancelHeight := height\<rparr>) f;
          f2 = f1\<lparr>CanceledProducers := AList.update key producer (CanceledProducers f1)\<rparr>;
          f3 = (case oriState of
                  Pending \<Rightarrow>
                    f2\<lparr>PendingProducers := AList.delete key (PendingProducers f2),
                       PendingCanceledProducers :=
                         AList.update key producer (PendingCanceledProducers f2)\<rparr>
                | Active \<Rightarrow>
                    f2\<lparr>ActivityProducers := AList.delete key (ActivityProducers f2),
                       DposV2ActivityProducers := AList.delete key (DposV2ActivityProducers f2)\<rparr>
                | Inactive \<Rightarrow>
                    f2\<lparr>InactiveProducers := AList.delete key (InactiveProducers f2)\<rparr>
                | _ \<Rightarrow> f2)
      in Inr (f3\<lparr>Nicknames := Nicknames f3 - {NickName (info (heap f3 producer))}\<rparr>))"

definition cancelProducer_undo :: "addr \<Rightarrow> string \<Rightarrow> ProducerState \<Rightarrow> closure" where
  "cancelProducer_undo producer key oriState f =
     (let f1 = updProducer producer (\<lambda>p. p\<lparr>cancelHeight := 0\<rparr>) f;
          f2 = f1\<lparr>CanceledProducers := AList.delete key (CanceledProducers f1)\<rparr>;
          f3 = updProducer producer (\<lambda>p. p\<lparr>state := oriState\<rparr>) f2;
          f4 = (case oriState of
                  Pending \<Rightarrow>
                    f3\<lparr>PendingProducers := AList.update key producer (PendingProducers f3),
                       PendingCanceledProducers := AList.delete key (PendingCanceledProducers f3)\<rparr>
                | Active \<Rightarrow>
                    (let f' = f3\<lparr>ActivityProducers := AList.update key producer (ActivityProducers f3)\<rparr>
                     in if StakeUntil (info (heap f' producer)) \<noteq> 0
                        then f'\<lparr>DposV2ActivityProducers :=
                                 AList.update key producer (DposV2ActivityProducers f')\<rparr>
                        else f')
                | Inactive \<Rightarrow>
                    f3\<lparr>InactiveProducers := AList.update key producer (InactiveProducers f3)\<rparr>
                | _ \<Rightarrow> f3)
      in Inr (f4\<lparr>Nicknames := insert (NickName (info (heap f4 producer))) (Nicknames f4)\<rparr>))"

text \<open>
  \<open>cancelProducer\<close>, on the owner key of the \<open>ProcessProducer\<close> payload.  Reading
  \<open>producer.state\<close> of a producer that does not exist panics.
\<close>

definition cancelProducer :: "bytes \<Rightarrow> uint32 \<Rightarrow> State \<Rightarrow> error + State" where
  "cancelProducer ownerPublicKey height s =
     (let key = EncodeToString ownerPublicKey
      in case getProducer (frame s) ownerPublicKey of
           None \<Rightarrow> Inl NilPointerDereference
         | Some producer \<Rightarrow>
             (let oriState = state (heap (frame s) producer)
              in History_Append height
                   (cancelProducer_do producer key oriState height)
                   (cancelProducer_undo producer key oriState) s))"

text \<open>\<open>activateProducer\<close>, on the node key of the \<open>ActivateProducer\<close> payload.\<close>

definition activateProducer :: "bytes \<Rightarrow> uint32 \<Rightarrow> State \<Rightarrow> error + State" where
  "activateProducer nodePublicKey height s =
     (case getProducer (frame s) nodePublicKey of
        None \<Rightarrow> Inr s
      | Some producer \<Rightarrow>
          History_Append height
            (\<lambda>f. Inr (updProducer producer (\<lambda>p. p\<lparr>activateRequestHeight := height\<rparr>) f))
            (\<lambda>f. Inr (updProducer producer (\<lambda>p. p\<lparr>activateRequestHeight := MaxUint32\<rparr>) f))
            s)"

section \<open>Votes of version 1\<close>

text \<open>
  \<open>processVoteOutput\<close> and \<open>processVoteCancel\<close>: the payload of the output must be a
  \<open>VoteOutput\<close>, else the type assertion panics.
\<close>

definition addProducerVotes :: "addr \<Rightarrow> Fixed64 \<Rightarrow> uint32 \<Rightarrow> State \<Rightarrow> error + State" where
  "addProducerVotes producer amount height s =
     History_Append height
       (\<lambda>f. Inr (updProducer producer (\<lambda>p. p\<lparr>votes := votes p + amount\<rparr>) f))
       (\<lambda>f. Inr (updProducer producer (\<lambda>p. p\<lparr>votes := votes p - amount\<rparr>) f)) s"

definition subtractProducerVotes :: "addr \<Rightarrow> Fixed64 \<Rightarrow> uint32 \<Rightarrow> State \<Rightarrow> error + State" where
  "subtractProducerVotes producer amount height s =
     History_Append height
       (\<lambda>f. Inr (updProducer producer (\<lambda>p. p\<lparr>votes := votes p - amount\<rparr>) f))
       (\<lambda>f. Inr (updProducer producer (\<lambda>p. p\<lparr>votes := votes p + amount\<rparr>) f)) s"

definition processVoteOutput :: "Output \<Rightarrow> uint32 \<Rightarrow> State \<Rightarrow> error + State" where
  "processVoteOutput output height s =
     (case Output.Payload output of
        VoteOutputPayload p \<Rightarrow>
          forEach (Contents p)
            (\<lambda>vote. forEach (CandidateVotes vote)
               (\<lambda>cv s'.
                  case getProducer (frame s') (CandidateVotes.Candidate cv) of
                    None \<Rightarrow> Inr s'
                  | Some producer \<Rightarrow>
                      (case VoteContent.VoteType vote of
                         Delegate \<Rightarrow>
                           if VoteOutput.Version p = VoteProducerVersion
                           then addProducerVotes producer (Value output) height s'
                           else addProducerVotes producer (CandidateVotes.Votes cv) height s'
                       | _ \<Rightarrow> Inr s'))) s
      | _ \<Rightarrow> Inl TypeAssertionFailed)"

definition processVoteCancel :: "Output \<Rightarrow> uint32 \<Rightarrow> State \<Rightarrow> error + State" where
  "processVoteCancel output height s =
     (case Output.Payload output of
        VoteOutputPayload p \<Rightarrow>
          forEach (Contents p)
            (\<lambda>vote. forEach (CandidateVotes vote)
               (\<lambda>cv s'.
                  case getProducer (frame s') (CandidateVotes.Candidate cv) of
                    None \<Rightarrow> Inr s'
                  | Some producer \<Rightarrow>
                      (case VoteContent.VoteType vote of
                         Delegate \<Rightarrow>
                           if VoteOutput.Version p = VoteProducerVersion
                           then subtractProducerVotes producer (Value output) height s'
                           else subtractProducerVotes producer (CandidateVotes.Votes cv) height s'
                       | _ \<Rightarrow> Inr s'))) s
      | _ \<Rightarrow> Inl TypeAssertionFailed)"

text \<open>
  \<open>processVotes\<close>: for a vote output, \<open>p\<close> is nil unless the payload is a \<open>VoteOutput\<close>, and
  reading \<open>p.Version\<close> then panics.
\<close>

definition processVotes :: "Env \<Rightarrow> Transaction \<Rightarrow> uint32 \<Rightarrow> State \<Rightarrow> error + State" where
  "processVotes env tx height s =
     (if TxVersion09 \<le> Transaction.Version tx then
        forEach (enumerate 0 (Outputs tx))
          (\<lambda>(i, output) s'.
             if Type output \<noteq> OTVote \<and> Type output \<noteq> OTDposV2Vote then Inr s'
             else
               (case Output.Payload output of
                  VoteOutputPayload p \<Rightarrow>
                    if VoteOutput.Version p = VoteProducerVersion \<or>
                       list_ex (\<lambda>content. VoteContent.VoteType content = Delegate) (Contents p)
                    then
                      bindE
                        (History_Append height
                           (\<lambda>f. Inr (f\<lparr>VotesSet :=
                                          insert (OutPointReferKey env (Hash tx) (of_nat i)) (VotesSet f)\<rparr>))
                           (\<lambda>f. Inr (f\<lparr>VotesSet :=
                                          VotesSet f - {OutPointReferKey env (Hash tx) (of_nat i)}\<rparr>))
                           s')
                        (processVoteOutput output height)
                    else Inr s'
                | _ \<Rightarrow> Inl NilPointerDereference)) s
      else Inr s)"

text \<open>
  \<open>processCancelVotes\<close>.  The references are looked up by input; an input without a
  reference yields the zero \<open>Output\<close>, whose payload is nil.
\<close>

definition zeroOutput :: Output where
  "zeroOutput = \<lparr>Value = 0, ProgramHash = replicate 21 0, Type = OTNone,
                 Output.Payload = NilOutputPayload\<rparr>"

definition processCancelVotes :: "Env \<Rightarrow> Transaction \<Rightarrow> uint32 \<Rightarrow> State \<Rightarrow> error + State" where
  "processCancelVotes env tx height s =
     (if \<not> list_ex (\<lambda>input. InputReferKey env input \<in> VotesSet (frame s)) (Inputs tx)
      then Inr s
      else
        (case GetTxReference env tx of
           None \<Rightarrow> Inr s
         | Some references \<Rightarrow>
             forEach (enumerate 0 (Inputs tx))
               (\<lambda>(i, input) s'.
                  if InputReferKey env input \<in> VotesSet (frame s')
                  then processVoteCancel
                         (case references i of None \<Rightarrow> zeroOutput | Some out \<Rightarrow> out) height s'
                  else Inr s') s))"

section \<open>Deposits\<close>

text \<open>
  \<open>getProducerByDepositHash\<close> walks the pending, active, inactive, canceled and illegal
  maps in this order and returns the first producer with the deposit hash.
\<close>

definition getProducerByDepositHash :: "StateKeyFrame \<Rightarrow> Uint168 \<Rightarrow> addr option" where
  "getProducerByDepositHash f hash =
     find (\<lambda>producer. depositHash (heap f producer) = hash)
       (map snd (PendingProducers f @ ActivityProducers f @ InactiveProducers f @
                 CanceledProducers f @ IllegalProducers f))"

definition addProducerAssert :: "Output \<Rightarrow> uint32 \<Rightarrow> State \<Rightarrow> error + (State \<times> bool)" where
  "addProducerAssert output height s =
     (case getProducerByDepositHash (frame s) (ProgramHash output) of
        Some producer \<Rightarrow>
          bindE
            (History_Append height
               (\<lambda>f. Inr (updProducer producer (\<lambda>p. p\<lparr>totalAmount := totalAmount p + Value output\<rparr>) f))
               (\<lambda>f. Inr (updProducer producer (\<lambda>p. p\<lparr>totalAmount := totalAmount p - Value output\<rparr>) f))
               s)
            (\<lambda>s1. Inr (s1, True))
      | None \<Rightarrow> Inr (s, False))"

definition processDeposit :: "Env \<Rightarrow> Transaction \<Rightarrow> uint32 \<Rightarrow> State \<Rightarrow> error + State" where
  "processDeposit env tx height s =
     forEach (enumerate 0 (Outputs tx))
       (\<lambda>(i, output) s'.
          if IsDepositProgramHash env (ProgramHash output) then
            bindE (addProducerAssert output height s')
              (\<lambda>(s1, added).
                 if added
                 then Inr (s1\<lparr>frame := (frame s1)
                             \<lparr>DepositOutputs := (DepositOutputs (frame s1))
                                (OutPointReferKey env (Hash tx) (of_nat i) \<mapsto> Value output)\<rparr>\<rparr>)
                 else Inr s1)
          else Inr s') s"

text \<open>
  \<open>returnDeposit\<close>.  The loop over the programs ends the whole function when the deposit
  program hash of a producer cannot be computed; \<open>program.Code[1 : len-1]\<close> panics on a
  code shorter than two bytes.
\<close>

definition returnAction ::
  "ChainParams \<Rightarrow> addr \<Rightarrow> Fixed64 \<Rightarrow> Fixed64 \<Rightarrow> uint32 \<Rightarrow> State \<Rightarrow> error + State" where
  "returnAction cp producer inputValue changeValue height s =
     History_Append height
       (\<lambda>f. let f1 = updProducer producer (\<lambda>p. p\<lparr>totalAmount := totalAmount p - inputValue\<rparr>) f
             in if state (heap f1 producer) = Canceled \<and>
                   f64_le (totalAmount (heap f1 producer) + changeValue - penalty (heap f1 producer))
                     (MinTransactionFee cp)
                then Inr (updProducer producer (\<lambda>p. p\<lparr>state := Returned\<rparr>) f1)
                else Inr f1)
       (\<lambda>f. Inr (updProducer producer
                    (\<lambda>p. p\<lparr>totalAmount := totalAmount p + inputValue, state := Canceled\<rparr>) f))
       s"

primrec returnDepositPrograms ::
  "Env \<Rightarrow> ChainParams \<Rightarrow> Transaction \<Rightarrow> Fixed64 \<Rightarrow> uint32 \<Rightarrow> Program list \<Rightarrow> State \<Rightarrow> error + State"
  where
  "returnDepositPrograms env cp tx inputValue height [] s = Inr s"
| "returnDepositPrograms env cp tx inputValue height (program # rest) s =
     (if length (Program.Code program) < 2 then Inl SliceBoundsOutOfRange
      else
        (case getProducer (frame s) (butlast (tl (Program.Code program))) of
           None \<Rightarrow> returnDepositPrograms env cp tx inputValue height rest s
         | Some producer \<Rightarrow>
             (case PublicKeyToDepositProgramHash env (OwnerPublicKey (info (heap (frame s) producer))) of
                None \<Rightarrow> Inr s
              | Some hash \<Rightarrow>
                  (let changeValue =
                         fold (\<lambda>output v. if ProgramHash output = hash then v + Value output else v)
                           (Outputs tx) 0
                   in bindE (returnAction cp producer inputValue changeValue height s)
                        (returnDepositPrograms env cp tx inputValue height rest)))))"

definition returnDeposit ::
  "Env \<Rightarrow> ChainParams \<Rightarrow> Transaction \<Rightarrow> uint32 \<Rightarrow> State \<Rightarrow> error + State" where
  "returnDeposit env cp tx height s =
     (let inputValue =
            fold (\<lambda>input v. v + mapGet (DepositOutputs (frame s)) (InputReferKey env input))
              (Inputs tx) 0
      in returnDepositPrograms env cp tx inputValue height (Programs tx) s)"

section \<open>Votes of version 2\<close>

definition processExchangeVotes :: "Transaction \<Rightarrow> uint32 \<Rightarrow> State \<Rightarrow> error + State" where
  "processExchangeVotes tx height s =
     (case Transaction.Payload tx of
        ExchangeVotesPayload exchangeValue \<Rightarrow>
          History_Append height
            (\<lambda>f. case Outputs tx of
                    [] \<Rightarrow> Inl IndexOutOfRange
                  | output # _ \<Rightarrow>
                      Inr (f\<lparr>DposV2VoteRights := (DposV2VoteRights f)
                              (ProgramHash output \<mapsto>
                                 mapGet (DposV2VoteRights f) (ProgramHash output) + exchangeValue)\<rparr>))
            (\<lambda>f. case Outputs tx of
                    [] \<Rightarrow> Inl IndexOutOfRange
                  | output # _ \<Rightarrow>
                      Inr (f\<lparr>DposV2VoteRights := (DposV2VoteRights f)
                              (ProgramHash output \<mapsto>
                                 mapGet (DposV2VoteRights f) (ProgramHash output) - exchangeValue)\<rparr>))
            s
      | _ \<Rightarrow> Inl TypeAssertionFailed)"

text \<open>The two accumulation loops over the votes of a content.\<close>

definition maxVotesOf :: "VotesWithLockTime list \<Rightarrow> Fixed64" where
  "maxVotesOf votesInfo =
     fold (\<lambda>vote maxVotes.
             if f64_less maxVotes (VotesWithLockTime.Votes vote)
             then VotesWithLockTime.Votes vote else maxVotes) votesInfo 0"

definition totalVotesOf :: "VotesWithLockTime list \<Rightarrow> Fixed64" where
  "totalVotesOf votesInfo =
     fold (\<lambda>vote totalVotes. totalVotes + VotesWithLockTime.Votes vote) votesInfo 0"

text \<open>\<open>s.M[*stakeAddress] += v\<close> and \<open>-= v\<close> as a pair of closures, for a map of the frame.\<close>

definition appendAmount ::
  "(StateKeyFrame \<Rightarrow> Uint168 \<rightharpoonup> Fixed64) \<Rightarrow>
   ((Uint168 \<rightharpoonup> Fixed64) \<Rightarrow> StateKeyFrame \<Rightarrow> StateKeyFrame) \<Rightarrow>
   Uint168 \<Rightarrow> Fixed64 \<Rightarrow> uint32 \<Rightarrow> State \<Rightarrow> error + State" where
  "appendAmount getM setM stakeAddress v height s =
     History_Append height
       (\<lambda>f. Inr (setM ((getM f)(stakeAddress \<mapsto> mapGet (getM f) stakeAddress + v)) f))
       (\<lambda>f. Inr (setM ((getM f)(stakeAddress \<mapsto> mapGet (getM f) stakeAddress - v)) f))
       s"

text \<open>
  The \<open>Delegate\<close> case of \<open>processVotingContent\<close>.  The closures of the second loop read
  the loop variable \<open>v\<close>, which the iterations share (the module is built with Go 1.17):
  the \<open>do\<close> closure runs at once and reads the current vote, the \<open>undo\<close> closure runs
  after the loop and reads the last vote of the content.
\<close>

definition votingDelegate ::
  "Env \<Rightarrow> Transaction \<Rightarrow> uint32 \<Rightarrow> Uint168 \<Rightarrow> VotesContent \<Rightarrow> State \<Rightarrow> error + State" where
  "votingDelegate env tx height stakeAddress content s =
     bindE
       (appendAmount DposVotes (\<lambda>m f. f\<lparr>DposVotes := m\<rparr>) stakeAddress
          (maxVotesOf (VotesContent.VotesInfo content)) height s)
       (\<lambda>s1.
          bindE
            (forEach (VotesContent.VotesInfo content)
               (\<lambda>v s'.
                  case getProducer (frame s') (VotesWithLockTime.Candidate v) of
                    None \<Rightarrow> Inr s'
                  | Some producer \<Rightarrow>
                      History_Append height
                        (\<lambda>f. Inr (updProducer producer
                                     (\<lambda>p. p\<lparr>votes := votes p + VotesWithLockTime.Votes v\<rparr>) f))
                        (\<lambda>f. Inr (updProducer producer
                                     (\<lambda>p. p\<lparr>votes := votes p -
                                              VotesWithLockTime.Votes
                                                (last (VotesContent.VotesInfo content))\<rparr>) f))
                        s') s1)
            (forEach (VotesContent.VotesInfo content)
               (\<lambda>vote s'.
                  let detailVoteInfo =
                        \<lparr>StakeProgramHash = stakeAddress, TransactionHash = Hash tx,
                         BlockHeight = height,
                         PayloadVersion = Transaction.PayloadVersion tx,
                         DetailedVoteInfo.VoteType = VotesContent.VoteType content,
                         Info = vote\<rparr>;
                      referKey = DetailedVoteInfoReferKey env detailVoteInfo
                  in History_Append height
                       (\<lambda>f. Inr (f\<lparr>DetailDPoSV1Votes :=
                                      (DetailDPoSV1Votes f)(referKey \<mapsto> detailVoteInfo)\<rparr>))
                       (\<lambda>f. Inr (f\<lparr>DetailDPoSV1Votes := (DetailDPoSV1Votes f)(referKey := None)\<rparr>))
                       s')))"

text \<open>
  The closures of the \<open>DposV2\<close> case.  \<open>do\<close> assigns into \<open>producer.detailedDPoSV2Votes\<close>,
  which panics when that map is nil.
\<close>

definition votingDposV2_do ::
  "ChainParams \<Rightarrow> addr \<Rightarrow> Uint168 \<Rightarrow> Uint256 \<Rightarrow> DetailedVoteInfo \<Rightarrow> closure" where
  "votingDposV2_do cp producer stakeAddress referKey dvi f =
     (case detailedDPoSV2Votes (heap f producer) of
        None \<Rightarrow> Inl NilMapAssignment
      | Some m \<Rightarrow>
          (let inner = (case m stakeAddress of None \<Rightarrow> Map.empty | Some i \<Rightarrow> i);
               f1 = updProducer producer
                      (\<lambda>p. p\<lparr>detailedDPoSV2Votes := Some (m(stakeAddress \<mapsto> inner(referKey \<mapsto> dvi))),
                              dposV2Votes := dposV2Votes p + VotesWithLockTime.Votes (Info dvi)\<rparr>) f
           in if f64_le (DposV2EffectiveVotes cp) (dposV2Votes (heap f1 producer))
              then Inr (f1\<lparr>DposV2EffectedProducers :=
                             AList.update (EncodeToString (OwnerPublicKey (info (heap f1 producer))))
                               producer (DposV2EffectedProducers f1)\<rparr>)
              else Inr f1))"

definition votingDposV2_undo ::
  "ChainParams \<Rightarrow> addr \<Rightarrow> Uint168 \<Rightarrow> Uint256 \<Rightarrow> DetailedVoteInfo \<Rightarrow> closure" where
  "votingDposV2_undo cp producer stakeAddress referKey dvi f =
     (let f1 = updProducer producer
                 (\<lambda>p. p\<lparr>detailedDPoSV2Votes :=
                           (case detailedDPoSV2Votes p of
                              None \<Rightarrow> None
                            | Some m \<Rightarrow>
                                (case m stakeAddress of
                                   None \<Rightarrow> Some m
                                 | Some inner \<Rightarrow> Some (m(stakeAddress \<mapsto> inner(referKey := None))))),
                         dposV2Votes := dposV2Votes p - VotesWithLockTime.Votes (Info dvi)\<rparr>) f
      in if f64_less (dposV2Votes (heap f1 producer)) (DposV2EffectiveVotes cp)
         then Inr (f1\<lparr>DposV2EffectedProducers :=
                        AList.delete (EncodeToString (OwnerPublicKey (info (heap f1 producer))))
                          (DposV2EffectedProducers f1)\<rparr>)
         else Inr f1)"

definition votingDposV2 ::
  "Env \<Rightarrow> ChainParams \<Rightarrow> Transaction \<Rightarrow> uint32 \<Rightarrow> Uint168 \<Rightarrow> VotesContent \<Rightarrow> State \<Rightarrow> error + State"
  where
  "votingDposV2 env cp tx height stakeAddress content s =
     bindE
       (appendAmount DposV2Votes (\<lambda>m f. f\<lparr>DposV2Votes := m\<rparr>) stakeAddress
          (totalVotesOf (VotesContent.VotesInfo content)) height s)
       (forEach (VotesContent.VotesInfo content)
          (\<lambda>v s'.
             case getDPoSV2Producer (frame s') (VotesWithLockTime.Candidate v) of
               Inl e \<Rightarrow> Inl e
             | Inr None \<Rightarrow> Inr s'
             | Inr (Some producer) \<Rightarrow>
                 (let dvi = \<lparr>StakeProgramHash = stakeAddress, TransactionHash = Hash tx,
                             BlockHeight = height,
                             PayloadVersion = Transaction.PayloadVersion tx,
                             DetailedVoteInfo.VoteType = VotesContent.VoteType content,
                             Info = v\<rparr>;
                      referKey = DetailedVoteInfoReferKey env dvi
                  in History_Append height
                       (votingDposV2_do cp producer stakeAddress referKey dvi)
                       (votingDposV2_undo cp producer stakeAddress referKey dvi) s')))"

text \<open>\<open>processVotingContent\<close>: the stake address of the first program, then each content.\<close>

definition processVotingContent ::
  "Env \<Rightarrow> ChainParams \<Rightarrow> Transaction \<Rightarrow> uint32 \<Rightarrow> State \<Rightarrow> error + State" where
  "processVotingContent env cp tx height s =
     (case Programs tx of
        [] \<Rightarrow> Inl IndexOutOfRange
      | program # _ \<Rightarrow>
          (case StakeProgramHashOfCode env (Program.Code program) of
             None \<Rightarrow> Inl NilPointerDereference
           | Some stakeAddress \<Rightarrow>
               (case Transaction.Payload tx of
                  VotingPayload contents renewalContents \<Rightarrow>
                    forEach contents
                      (\<lambda>content s'.
                         case VotesContent.VoteType content of
                           Delegate \<Rightarrow> votingDelegate env tx height stakeAddress content s'
                         | CRC \<Rightarrow>
                             appendAmount CRVotes (\<lambda>m f. f\<lparr>CRVotes := m\<rparr>) stakeAddress
                               (totalVotesOf (VotesContent.VotesInfo content)) height s'
                         | CRCProposal \<Rightarrow>
                             appendAmount CRVotes (\<lambda>m f. f\<lparr>CRVotes := m\<rparr>) stakeAddress
                               (maxVotesOf (VotesContent.VotesInfo content)) height s'
                         | CRCImpeachment \<Rightarrow>
                             appendAmount CRImpeachmentVotes (\<lambda>m f. f\<lparr>CRImpeachmentVotes := m\<rparr>)
                               stakeAddress (totalVotesOf (VotesContent.VotesInfo content)) height s'
                         | DposV2 \<Rightarrow> votingDposV2 env cp tx height stakeAddress content s') s
                | _ \<Rightarrow> Inl TypeAssertionFailed)))"

text \<open>
  \<open>processRenewalVotingContent\<close>.  The closures assign into the inner map of the stake
  address, which panics when there is none.  They read the loop variable \<open>content\<close>:
  \<open>do\<close> reads the current content, \<open>undo\<close>, run after the loop, the last one.
\<close>

definition renewal_do :: "addr \<Rightarrow> Uint168 \<Rightarrow> Uint256 \<Rightarrow> DetailedVoteInfo \<Rightarrow> Uint256 \<Rightarrow> closure" where
  "renewal_do producer stakeAddress referKey detailVoteInfo oldReferKey f =
     (case detailedDPoSV2Votes (heap f producer) of
        None \<Rightarrow> Inl NilMapAssignment
      | Some m \<Rightarrow>
          (case m stakeAddress of
             None \<Rightarrow> Inl NilMapAssignment
           | Some inner \<Rightarrow>
               Inr (updProducer producer
                      (\<lambda>p. p\<lparr>detailedDPoSV2Votes :=
                                Some (m(stakeAddress \<mapsto>
                                        (inner(referKey \<mapsto> detailVoteInfo))(oldReferKey := None)))\<rparr>)
                      f)))"

definition renewal_undo :: "addr \<Rightarrow> Uint168 \<Rightarrow> Uint256 \<Rightarrow> DetailedVoteInfo \<Rightarrow> Uint256 \<Rightarrow> closure" where
  "renewal_undo producer stakeAddress referKey voteInfo oldReferKey f =
     (case detailedDPoSV2Votes (heap f producer) of
        None \<Rightarrow> Inl NilMapAssignment
      | Some m \<Rightarrow>
          (case m stakeAddress of
             None \<Rightarrow> Inl NilMapAssignment
           | Some inner \<Rightarrow>
               Inr (updProducer producer
                      (\<lambda>p. p\<lparr>detailedDPoSV2Votes :=
                                Some (m(stakeAddress \<mapsto>
                                        (inner(oldReferKey \<mapsto> voteInfo))(referKey := None)))\<rparr>)
                      f)))"

definition processRenewalVotingContent ::
  "Env \<Rightarrow> Transaction \<Rightarrow> uint32 \<Rightarrow> State \<Rightarrow> error + State" where
  "processRenewalVotingContent env tx height s =
     (case Programs tx of
        [] \<Rightarrow> Inl IndexOutOfRange
      | program # _ \<Rightarrow>
          (case StakeProgramHashOfCode env (Program.Code program) of
             None \<Rightarrow> Inl NilPointerDereference
           | Some stakeAddress \<Rightarrow>
               (case Transaction.Payload tx of
                  VotingPayload contents renewalContents \<Rightarrow>
                    forEach renewalContents
                      (\<lambda>content s'.
                         case getDPoSV2Producer (frame s')
                                (VotesWithLockTime.Candidate (RenewalVotesContent.VotesInfo content)) of
                           Inl e \<Rightarrow> Inl e
                         | Inr None \<Rightarrow> Inr s'
                         | Inr (Some producer) \<Rightarrow>
                             (let voteInfo = fst (GetDetailedDPoSV2Votes (heap (frame s') producer)
                                                    stakeAddress (ReferKey content));
                                  detailVoteInfo =
                                    \<lparr>StakeProgramHash = stakeAddress, TransactionHash = Hash tx,
                                     BlockHeight = BlockHeight voteInfo,
                                     PayloadVersion = DetailedVoteInfo.PayloadVersion voteInfo,
                                     DetailedVoteInfo.VoteType = DposV2,
                                     Info = RenewalVotesContent.VotesInfo content\<rparr>;
                                  referKey = DetailedVoteInfoReferKey env detailVoteInfo
                              in History_Append height
                                   (renewal_do producer stakeAddress referKey detailVoteInfo
                                      (ReferKey content))
                                   (renewal_undo producer stakeAddress referKey voteInfo
                                      (ReferKey (last renewalContents)))
                                   s')) s
                | _ \<Rightarrow> Inl TypeAssertionFailed)))"

definition processVoting ::
  "Env \<Rightarrow> ChainParams \<Rightarrow> Transaction \<Rightarrow> uint32 \<Rightarrow> State \<Rightarrow> error + State" where
  "processVoting env cp tx height s =
     (if Transaction.PayloadVersion tx = VoteVersion then processVotingContent env cp tx height s
      else if Transaction.PayloadVersion tx = RenewalVoteVersion
      then processRenewalVotingContent env tx height s
      else Inr s)"

section \<open>Mode, version and reward transactions\<close>

definition processNextTurnDPOSInfo :: "Transaction \<Rightarrow> uint32 \<Rightarrow> State \<Rightarrow> error + State" where
  "processNextTurnDPOSInfo tx height s =
     (case Transaction.Payload tx of
        NextTurnDPOSInfoPayload \<Rightarrow>
          (let oriNeedNextTurnDposInfo = NeedNextTurnDPOSInfo (frame s)
           in History_Append height
                (\<lambda>f. Inr (f\<lparr>NeedNextTurnDPOSInfo := False\<rparr>))
                (\<lambda>f. Inr (f\<lparr>NeedNextTurnDPOSInfo := oriNeedNextTurnDposInfo\<rparr>)) s)
      | _ \<Rightarrow> Inr s)"

text \<open>
  \<open>getCRMembersOwnerPublicKey\<close>: the code of the first member with the DID, without its
  first and last byte; \<open>None\<close> is the nil result.
\<close>

definition getCRMembersOwnerPublicKey :: "Env \<Rightarrow> Uint168 \<Rightarrow> error + bytes option" where
  "getCRMembersOwnerPublicKey env CRCommitteeDID =
     (case getCRMembers env of
        None \<Rightarrow> Inr None
      | Some members \<Rightarrow>
          (case find (\<lambda>cr. DID cr = CRCommitteeDID) members of
             None \<Rightarrow> Inr None
           | Some cr \<Rightarrow>
               if length (CRMember.Code cr) < 2 then Inl SliceBoundsOutOfRange
               else Inr (Some (butlast (tl (CRMember.Code cr))))))"

definition getNodePublicKeyStr :: "StateKeyFrame \<Rightarrow> string \<Rightarrow> string" where
  "getNodePublicKeyStr f strOwnerPublicKey =
     (case find (\<lambda>(nodePubKey, nodeOwnerPubKey). strOwnerPublicKey = nodeOwnerPubKey)
             (NodeOwnerKeys f) of
        Some (nodePubKey, nodeOwnerPubKey) \<Rightarrow> nodePubKey
      | None \<Rightarrow> [])"

definition processCRCouncilMemberClaimNode ::
  "Env \<Rightarrow> Transaction \<Rightarrow> uint32 \<Rightarrow> State \<Rightarrow> error + State" where
  "processCRCouncilMemberClaimNode env tx height s =
     (case Transaction.Payload tx of
        CRCouncilMemberClaimNodePayload nodePublicKey CRCouncilCommitteeDID \<Rightarrow>
          (let strNewNodePublicKey = EncodeToString nodePublicKey
           in bindE (getCRMembersOwnerPublicKey env CRCouncilCommitteeDID)
                (\<lambda>ownerPublicKey.
                   case ownerPublicKey of
                     None \<Rightarrow> Inr s
                   | Some owner \<Rightarrow>
                       (let strOwnerPubkey = EncodeToString owner;
                            strOldNodePublicKey = getNodePublicKeyStr (frame s) strOwnerPubkey
                        in History_Append height
                             (\<lambda>f. let f1 = f\<lparr>NodeOwnerKeys :=
                                               AList.update strNewNodePublicKey strOwnerPubkey
                                                 (NodeOwnerKeys f)\<rparr>
                                   in if strOldNodePublicKey \<noteq> []
                                      then Inr (f1\<lparr>NodeOwnerKeys :=
                                                     AList.delete strOldNodePublicKey (NodeOwnerKeys f1)\<rparr>)
                                      else Inr f1)
                             (\<lambda>f. let f1 = f\<lparr>NodeOwnerKeys :=
                                               AList.delete strNewNodePublicKey (NodeOwnerKeys f)\<rparr>
                                   in if strOldNodePublicKey \<noteq> []
                                      then Inr (f1\<lparr>NodeOwnerKeys :=
                                                     AList.update strOldNodePublicKey strOwnerPubkey
                                                       (NodeOwnerKeys f1)\<rparr>)
                                      else Inr f1)
                             s)))
      | _ \<Rightarrow> Inl TypeAssertionFailed)"

text \<open>\<open>processRevertToPOW\<close> asserts the payload type after the history entry is made.\<close>

definition processRevertToPOW :: "Transaction \<Rightarrow> uint32 \<Rightarrow> State \<Rightarrow> error + State" where
  "processRevertToPOW tx height s =
     (let oriNoProducers = NoProducers (frame s);
          oriNoClaimDPOSNode = NoClaimDPOSNode (frame s);
          oriDPOSWorkHeight = DPOSWorkHeight (frame s);
          oriRevertToPOWBlockHeight = RevertToPOWBlockHeight (frame s)
      in bindE
           (History_Append height
              (\<lambda>f. Inr (f\<lparr>ConsensusAlgorithm := POW, NoProducers := False,
                           NoClaimDPOSNode := False, DPOSWorkHeight := 0,
                           RevertToPOWBlockHeight := height\<rparr>))
              (\<lambda>f. Inr (f\<lparr>ConsensusAlgorithm := DPOS, NoProducers := oriNoProducers,
                           NoClaimDPOSNode := oriNoClaimDPOSNode,
                           DPOSWorkHeight := oriDPOSWorkHeight,
                           RevertToPOWBlockHeight := oriRevertToPOWBlockHeight\<rparr>))
              s)
           (\<lambda>s1. case Transaction.Payload tx of
                    RevertToPOWPayload \<Rightarrow> Inr s1
                  | _ \<Rightarrow> Inl TypeAssertionFailed))"

definition processRevertToDPOS :: "uint32 \<Rightarrow> uint32 \<Rightarrow> State \<Rightarrow> error + State" where
  "processRevertToDPOS workHeightInterval height s =
     (let oriWorkHeight = DPOSWorkHeight (frame s);
          oriNeedRevertToDPOSTX = NeedRevertToDPOSTX (frame s)
      in History_Append height
           (\<lambda>f. Inr (f\<lparr>DPOSWorkHeight := height + workHeightInterval,
                        NeedRevertToDPOSTX := False\<rparr>))
           (\<lambda>f. Inr (f\<lparr>DPOSWorkHeight := oriWorkHeight,
                        NeedRevertToDPOSTX := oriNeedRevertToDPOSTX\<rparr>))
           s)"

definition updateVersion :: "Transaction \<Rightarrow> uint32 \<Rightarrow> State \<Rightarrow> error + State" where
  "updateVersion tx height s =
     (case Transaction.Payload tx of
        UpdateVersionPayload startHeight endHeight \<Rightarrow>
          (let oriVersionStartHeight = VersionStartHeight (frame s);
               oriVersionEndHeight = VersionEndHeight (frame s)
           in History_Append height
                (\<lambda>f. Inr (f\<lparr>VersionStartHeight := startHeight, VersionEndHeight := endHeight\<rparr>))
                (\<lambda>f. Inr (f\<lparr>VersionStartHeight := oriVersionStartHeight,
                             VersionEndHeight := oriVersionEndHeight\<rparr>))
                s)
      | _ \<Rightarrow> Inr s)"

text \<open>
  The reward handlers.  Their \<open>undo\<close> closures assign back the reward maps saved before:
  Go maps are references, the saved value is the very map the \<open>do\<close> closure has changed,
  so these assignments restore nothing and are left out.  Only \<open>WithdrawableTxInfo\<close>
  is restored, from the copy made by the handler.
\<close>

definition processDposV2ClaimReward ::
  "Env \<Rightarrow> Transaction \<Rightarrow> uint32 \<Rightarrow> State \<Rightarrow> error + State" where
  "processDposV2ClaimReward env tx height s =
     (case Transaction.Payload tx of
        DposV2ClaimRewardPayload amount \<Rightarrow>
          (case Programs tx of
             [] \<Rightarrow> Inl IndexOutOfRange
           | program # _ \<Rightarrow>
               if length (Program.Code program) < 2 then Inl SliceBoundsOutOfRange
               else
                 (case PublicKeyToStandardProgramHash env (butlast (tl (Program.Code program))) of
                    None \<Rightarrow> Inl NilPointerDereference
                  | Some u168 \<Rightarrow>
                      (let addr = ToAddress env u168
                       in History_Append height
                            (\<lambda>f. Inr (f\<lparr>DposV2RewardInfo := (DposV2RewardInfo f)
                                           (addr \<mapsto> mapGet (DposV2RewardInfo f) addr - amount),
                                         DposV2RewardClaimingInfo := (DposV2RewardClaimingInfo f)
                                           (addr \<mapsto> mapGet (DposV2RewardClaimingInfo f) addr + amount),
                                         WithdrawableTxInfo := (WithdrawableTxInfo f)
                                           (Hash tx \<mapsto> \<lparr>Recipient = u168, Amount = amount\<rparr>)\<rparr>))
                            (\<lambda>f. Inr (f\<lparr>WithdrawableTxInfo := (WithdrawableTxInfo f)(Hash tx := None)\<rparr>))
                            s)))
      | _ \<Rightarrow> Inl TypeAssertionFailed)"

definition realWithdrawOne :: "Env \<Rightarrow> Uint256 \<Rightarrow> StateKeyFrame \<Rightarrow> StateKeyFrame" where
  "realWithdrawOne env hash f =
     (let info' = (case WithdrawableTxInfo f hash of
                     None \<Rightarrow> \<lparr>Recipient = replicate 21 0, Amount = 0\<rparr>
                   | Some i \<Rightarrow> i);
          addr = ToAddress env (Recipient info')
      in f\<lparr>DposV2RewardClaimingInfo := (DposV2RewardClaimingInfo f)
              (addr \<mapsto> mapGet (DposV2RewardClaimingInfo f) addr - Amount info'),
           DposV2RewardClaimedInfo := (DposV2RewardClaimedInfo f)
              (addr \<mapsto> mapGet (DposV2RewardClaimedInfo f) addr + Amount info'),
           WithdrawableTxInfo := (WithdrawableTxInfo f)(hash := None)\<rparr>)"

definition processDposV2ClaimRewardRealWithdraw ::
  "Env \<Rightarrow> Transaction \<Rightarrow> uint32 \<Rightarrow> State \<Rightarrow> error + State" where
  "processDposV2ClaimRewardRealWithdraw env tx height s =
     (let txs = WithdrawableTxInfo (frame s)
      in case Transaction.Payload tx of
           DposV2ClaimRewardRealWithdrawPayload withdrawTransactionHashes \<Rightarrow>
             History_Append height
               (\<lambda>f. Inr (fold (realWithdrawOne env) withdrawTransactionHashes f))
               (\<lambda>f. Inr (f\<lparr>WithdrawableTxInfo := txs\<rparr>))
               s
         | _ \<Rightarrow> Inl TypeAssertionFailed)"

section \<open>Emergency inactivity and illegal evidence\<close>

definition addEmergencyInactiveArbitrator ::
  "ChainParams \<Rightarrow> string \<Rightarrow> addr \<Rightarrow> uint32 \<Rightarrow> State \<Rightarrow> error + State" where
  "addEmergencyInactiveArbitrator cp key producer height s =
     History_Append height
       (\<lambda>f. let f1 = setInactiveProducer cp producer key height True f
             in Inr (f1\<lparr>EmergencyInactiveArbiters := insert key (EmergencyInactiveArbiters f1)\<rparr>))
       (\<lambda>f. let f1 = revertSettingInactiveProducer cp producer key height True f
             in Inr (f1\<lparr>EmergencyInactiveArbiters := EmergencyInactiveArbiters f1 - {key}\<rparr>))
       s"

text \<open>
  \<open>processEmergencyInactiveArbitrators\<close> tests the active map and then the inactive map,
  each on the state as it is at that moment.
\<close>

definition processEmergencyInactiveArbitrators ::
  "ChainParams \<Rightarrow> bytes list \<Rightarrow> uint32 \<Rightarrow> State \<Rightarrow> error + State" where
  "processEmergencyInactiveArbitrators cp arbitrators height s =
     forEach arbitrators
       (\<lambda>v s'.
          case map_of (NodeOwnerKeys (frame s')) (EncodeToString v) of
            None \<Rightarrow> Inr s'
          | Some key \<Rightarrow>
              bindE
                (case map_of (ActivityProducers (frame s')) key of
                   Some p \<Rightarrow> addEmergencyInactiveArbitrator cp key p height s'
                 | None \<Rightarrow> Inr s')
                (\<lambda>s1. case map_of (InactiveProducers (frame s1)) key of
                         Some p \<Rightarrow> addEmergencyInactiveArbitrator cp key p height s1
                       | None \<Rightarrow> Inr s1)) s"

definition recordSpecialTx :: "Uint256 \<Rightarrow> uint32 \<Rightarrow> State \<Rightarrow> error + State" where
  "recordSpecialTx hash height s =
     History_Append height
       (\<lambda>f. Inr (f\<lparr>SpecialTxHashes := insert hash (SpecialTxHashes f)\<rparr>))
       (\<lambda>f. Inr (f\<lparr>SpecialTxHashes := SpecialTxHashes f - {hash}\<rparr>)) s"

text \<open>
  \<open>getClaimedCRMemberDPOSPublicKeyMap\<close>: the members with a DPoS public key, by the hex
  form of that key; a later member replaces an earlier one with the same key.
\<close>

definition getClaimedCRMemberDPOSPublicKeyMap :: "Env \<Rightarrow> string \<rightharpoonup> CRMember" where
  "getClaimedCRMemberDPOSPublicKeyMap env =
     (case getCRMembers env of
        None \<Rightarrow> Map.empty
      | Some crMembers \<Rightarrow>
          map_of (rev (map (\<lambda>m. (EncodeToString (DPOSPublicKey m), m))
                         (filter (\<lambda>m. DPOSPublicKey m \<noteq> []) crMembers))))"

text \<open>The signers that an evidence payload accuses; \<open>None\<close> for any other payload.\<close>

definition illegalProducersOf :: "Payload \<Rightarrow> bytes list option" where
  "illegalProducersOf payloadData =
     (case payloadData of
        DPOSIllegalProposalsPayload sponsor \<Rightarrow> Some [sponsor]
      | DPOSIllegalVotesPayload signer \<Rightarrow> Some [signer]
      | DPOSIllegalBlocksPayload evidenceSigners compareSigners \<Rightarrow>
          Some (filter (\<lambda>pk. EncodeToString pk \<in> set (map EncodeToString evidenceSigners))
                  compareSigners)
      | SidechainIllegalDataPayload illegalSigner \<Rightarrow> Some [illegalSigner]
      | _ \<Rightarrow> None)"

text \<open>
  The closures of \<open>processIllegalEvidence\<close> for a producer found in the active, inactive,
  illegal and canceled map.  The handler saves the penalty, the state and the illegal
  height of the producer; the \<open>undo\<close> closures set \<open>activateRequestHeight\<close> to
  \<open>math.MaxUint32\<close>.
\<close>

definition addIllegalPenalty :: "ChainParams \<Rightarrow> addr \<Rightarrow> uint32 \<Rightarrow> StateKeyFrame \<Rightarrow> StateKeyFrame" where
  "addIllegalPenalty cp producer height f =
     (if ChangeCommitteeNewCRHeight cp \<le> height
      then updProducer producer (\<lambda>p. p\<lparr>penalty := penalty p + IllegalPenalty cp\<rparr>) f
      else f)"

definition illegalActive_do :: "ChainParams \<Rightarrow> addr \<Rightarrow> string \<Rightarrow> uint32 \<Rightarrow> closure" where
  "illegalActive_do cp producer key height f =
     (let f1 = updProducer producer (\<lambda>p. p\<lparr>state := Illegal, illegalHeight := height\<rparr>) f;
          f2 = f1\<lparr>IllegalProducers := AList.update key producer (IllegalProducers f1)\<rparr>;
          f3 = updProducer producer (\<lambda>p. p\<lparr>activateRequestHeight := MaxUint32\<rparr>) f2;
          f4 = addIllegalPenalty cp producer height f3;
          f5 = f4\<lparr>ActivityProducers := AList.delete key (ActivityProducers f4)\<rparr>
      in if StakeUntil (info (heap f5 producer)) \<noteq> 0
         then Inr (f5\<lparr>DposV2ActivityProducers := AList.delete key (DposV2ActivityProducers f5)\<rparr>)
         else Inr f5)"

definition illegalActive_undo ::
  "addr \<Rightarrow> string \<Rightarrow> ProducerState \<Rightarrow> Fixed64 \<Rightarrow> uint32 \<Rightarrow> closure" where
  "illegalActive_undo producer key oriState oriPenalty oriIllegalHeight f =
     (let f1 = updProducer producer
                 (\<lambda>p. p\<lparr>state := oriState, penalty := oriPenalty,
                         illegalHeight := oriIllegalHeight\<rparr>) f;
          f2 = f1\<lparr>ActivityProducers := AList.update key producer (ActivityProducers f1)\<rparr>;
          f3 = (if StakeUntil (info (heap f2 producer)) \<noteq> 0
                then f2\<lparr>DposV2ActivityProducers :=
                         AList.update key producer (DposV2ActivityProducers f2)\<rparr>
                else f2);
          f4 = updProducer producer (\<lambda>p. p\<lparr>activateRequestHeight := MaxUint32\<rparr>) f3
      in Inr (f4\<lparr>IllegalProducers := AList.delete key (IllegalProducers f4)\<rparr>))"

definition illegalInactive_do :: "ChainParams \<Rightarrow> addr \<Rightarrow> string \<Rightarrow> uint32 \<Rightarrow> closure" where
  "illegalInactive_do cp producer key height f =
     (let f1 = updProducer producer (\<lambda>p. p\<lparr>state := Illegal, illegalHeight := height\<rparr>) f;
          f2 = f1\<lparr>IllegalProducers := AList.update key producer (IllegalProducers f1)\<rparr>;
          f3 = updProducer producer (\<lambda>p. p\<lparr>activateRequestHeight := MaxUint32\<rparr>) f2;
          f4 = addIllegalPenalty cp producer height f3
      in Inr (f4\<lparr>InactiveProducers := AList.delete key (InactiveProducers f4)\<rparr>))"

definition illegalInactive_undo ::
  "addr \<Rightarrow> string \<Rightarrow> ProducerState \<Rightarrow> Fixed64 \<Rightarrow> uint32 \<Rightarrow> closure" where
  "illegalInactive_undo producer key oriState oriPenalty oriIllegalHeight f =
     (let f1 = updProducer producer
                 (\<lambda>p. p\<lparr>state := oriState, penalty := oriPenalty,
                         illegalHeight := oriIllegalHeight\<rparr>) f;
          f2 = f1\<lparr>InactiveProducers := AList.update key producer (InactiveProducers f1)\<rparr>;
          f3 = updProducer producer (\<lambda>p. p\<lparr>activateRequestHeight := MaxUint32\<rparr>) f2
      in Inr (f3\<lparr>IllegalProducers := AList.delete key (IllegalProducers f3)\<rparr>))"

definition illegalIllegal_do :: "ChainParams \<Rightarrow> addr \<Rightarrow> uint32 \<Rightarrow> closure" where
  "illegalIllegal_do cp producer height f =
     Inr (addIllegalPenalty cp producer height
            (updProducer producer
               (\<lambda>p. p\<lparr>illegalHeight := height, activateRequestHeight := MaxUint32\<rparr>) f))"

definition illegalIllegal_undo :: "addr \<Rightarrow> Fixed64 \<Rightarrow> uint32 \<Rightarrow> closure" where
  "illegalIllegal_undo producer oriPenalty oriIllegalHeight f =
     Inr (updProducer producer
            (\<lambda>p. p\<lparr>penalty := oriPenalty, illegalHeight := oriIllegalHeight,
                    activateRequestHeight := MaxUint32\<rparr>) f)"

definition illegalCanceled_do :: "ChainParams \<Rightarrow> addr \<Rightarrow> string \<Rightarrow> uint32 \<Rightarrow> closure" where
  "illegalCanceled_do cp producer key height f =
     (let f1 = updProducer producer (\<lambda>p. p\<lparr>state := Illegal, illegalHeight := height\<rparr>) f;
          f2 = f1\<lparr>IllegalProducers := AList.update key producer (IllegalProducers f1)\<rparr>;
          f3 = addIllegalPenalty cp producer height f2
      in Inr (f3\<lparr>CanceledProducers := AList.delete key (CanceledProducers f3)\<rparr>))"

definition illegalCanceled_undo :: "addr \<Rightarrow> string \<Rightarrow> ProducerState \<Rightarrow> Fixed64 \<Rightarrow> closure" where
  "illegalCanceled_undo producer key oriState oriPenalty f =
     (let f1 = updProducer producer
                 (\<lambda>p. p\<lparr>state := oriState, illegalHeight := 0, penalty := oriPenalty\<rparr>) f;
          f2 = f1\<lparr>CanceledProducers := AList.update key producer (CanceledProducers f1)\<rparr>
      in Inr (f2\<lparr>IllegalProducers := AList.delete key (IllegalProducers f2)\<rparr>))"

text \<open>The part of the loop body of \<open>processIllegalEvidence\<close> that acts on a producer.\<close>

definition illegalProducerStep ::
  "ChainParams \<Rightarrow> bytes \<Rightarrow> uint32 \<Rightarrow> State \<Rightarrow> error + State" where
  "illegalProducerStep cp pk height s =
     (case map_of (NodeOwnerKeys (frame s)) (EncodeToString pk) of
        None \<Rightarrow> Inr s
      | Some key \<Rightarrow>
          (case map_of (ActivityProducers (frame s)) key of
             Some producer \<Rightarrow>
               History_Append height
                 (illegalActive_do cp producer key height)
                 (illegalActive_undo producer key (state (heap (frame s) producer))
                    (penalty (heap (frame s) producer)) (illegalHeight (heap (frame s) producer)))
                 s
           | None \<Rightarrow>
          (case map_of (InactiveProducers (frame s)) key of
             Some producer \<Rightarrow>
               History_Append height
                 (illegalInactive_do cp producer key height)
                 (illegalInactive_undo producer key (state (heap (frame s) producer))
                    (penalty (heap (frame s) producer)) (illegalHeight (heap (frame s) producer)))
                 s
           | None \<Rightarrow>
          (case map_of (IllegalProducers (frame s)) key of
             Some producer \<Rightarrow>
               History_Append height
                 (illegalIllegal_do cp producer height)
                 (illegalIllegal_undo producer
                    (penalty (heap (frame s) producer)) (illegalHeight (heap (frame s) producer)))
                 s
           | None \<Rightarrow>
          (case map_of (CanceledProducers (frame s)) key of
             Some producer \<Rightarrow>
               History_Append height
                 (illegalCanceled_do cp producer key height)
                 (illegalCanceled_undo producer key (state (heap (frame s) producer))
                    (penalty (heap (frame s) producer)))
                 s
           | None \<Rightarrow> Inr s)))))"

definition processIllegalEvidence ::
  "Env \<Rightarrow> ChainParams \<Rightarrow> Payload \<Rightarrow> uint32 \<Rightarrow> State \<Rightarrow> error + State" where
  "processIllegalEvidence env cp payloadData height s =
     (case illegalProducersOf payloadData of
        None \<Rightarrow> Inr s
      | Some illegalProducers \<Rightarrow>
          (let crMembersMap = getClaimedCRMemberDPOSPublicKeyMap env
           in forEach illegalProducers
                (\<lambda>pk s'.
                   case crMembersMap (EncodeToString pk) of
                     Some cr \<Rightarrow>
                       if DPOSPublicKey cr = [] then Inr s'
                       else
                         bindE
                           (History_Append height
                              (\<lambda>f. Inr (f\<lparr>CRHookCalls :=
                                             CRHookCalls f @ [UpdateCRMemberIllegal (DID cr) height]\<rparr>))
                              (\<lambda>f. Inr (f\<lparr>CRHookCalls :=
                                             CRHookCalls f @
                                               [RevertCRMemberIllegal (DID cr) (MemberState cr) height]\<rparr>))
                              s')
                           (illegalProducerStep cp pk height)
                   | None \<Rightarrow> illegalProducerStep cp pk height s') s))"

section \<open>Dispatching a transaction\<close>

text \<open>
  The \<open>switch\<close> of \<open>processTransaction\<close>.  Two of its cases leave the function with
  \<open>return\<close> when \<open>GetSpecialTxHash\<close> fails; the result says whether the function goes on
  after the switch.
\<close>

datatype 'a flow = Continue 'a | Return 'a

definition continue :: "error + State \<Rightarrow> error + State flow" where
  "continue r = bindE r (\<lambda>s. Inr (Continue s))"

definition recordSpecialTxOf :: "Transaction \<Rightarrow> uint32 \<Rightarrow> State \<Rightarrow> error + State flow" where
  "recordSpecialTxOf tx height s =
     (case SpecialTxHash tx of
        None \<Rightarrow> Inr (Return s)
      | Some payloadHash \<Rightarrow> continue (recordSpecialTx payloadHash height s))"

definition processTransaction_switch ::
  "Env \<Rightarrow> ChainParams \<Rightarrow> Transaction \<Rightarrow> uint32 \<Rightarrow> State \<Rightarrow> error + State flow" where
  "processTransaction_switch env cp tx height s =
     (case TxType tx of
        RegisterProducer \<Rightarrow> continue (registerProducer env tx height s)
      | UpdateProducer \<Rightarrow>
          (case Transaction.Payload tx of
             ProducerInfoPayload info' \<Rightarrow> continue (updateProducer info' height s)
           | _ \<Rightarrow> Inl TypeAssertionFailed)
      | CancelProducer \<Rightarrow>
          (case Transaction.Payload tx of
             ProcessProducerPayload ownerPublicKey \<Rightarrow>
               continue (cancelProducer ownerPublicKey height s)
           | _ \<Rightarrow> Inl TypeAssertionFailed)
      | ActivateProducer \<Rightarrow>
          (case Transaction.Payload tx of
             ActivateProducerPayload nodePublicKey \<Rightarrow>
               continue (activateProducer nodePublicKey height s)
           | _ \<Rightarrow> Inl TypeAssertionFailed)
      | TransferAsset \<Rightarrow> continue (processVotes env tx height s)
      | ExchangeVotes \<Rightarrow> continue (processExchangeVotes tx height s)
      | Voting \<Rightarrow> continue (processVoting env cp tx height s)
      | IllegalProposalEvidence \<Rightarrow>
          bindE (processIllegalEvidence env cp (Transaction.Payload tx) height s)
            (recordSpecialTxOf tx height)
      | IllegalVoteEvidence \<Rightarrow>
          bindE (processIllegalEvidence env cp (Transaction.Payload tx) height s)
            (recordSpecialTxOf tx height)
      | IllegalBlockEvidence \<Rightarrow>
          bindE (processIllegalEvidence env cp (Transaction.Payload tx) height s)
            (recordSpecialTxOf tx height)
      | IllegalSidechainEvidence \<Rightarrow>
          bindE (processIllegalEvidence env cp (Transaction.Payload tx) height s)
            (recordSpecialTxOf tx height)
      | InactiveArbitrators \<Rightarrow>
          (case Transaction.Payload tx of
             InactiveArbitratorsPayload arbitrators \<Rightarrow>
               bindE (processEmergencyInactiveArbitrators cp arbitrators height s)
                 (recordSpecialTxOf tx height)
           | _ \<Rightarrow> Inl TypeAssertionFailed)
      | ReturnDepositCoin \<Rightarrow> continue (returnDeposit env cp tx height s)
      | UpdateVersion \<Rightarrow> continue (updateVersion tx height s)
      | NextTurnDPOSInfo \<Rightarrow> continue (processNextTurnDPOSInfo tx height s)
      | CRCouncilMemberClaimNode \<Rightarrow> continue (processCRCouncilMemberClaimNode env tx height s)
      | RevertToPOW \<Rightarrow> continue (processRevertToPOW tx height s)
      | RevertToDPOS \<Rightarrow>
          (case Transaction.Payload tx of
             RevertToDPOSPayload workHeightInterval \<Rightarrow>
               continue (processRevertToDPOS workHeightInterval height s)
           | _ \<Rightarrow> Inl TypeAssertionFailed)
      | DposV2ClaimReward \<Rightarrow> continue (processDposV2ClaimReward env tx height s)
      | DposV2ClaimRewardRealWithdraw \<Rightarrow>
          continue (processDposV2ClaimRewardRealWithdraw env tx height s)
      | _ \<Rightarrow> Inr (Continue s))"

text \<open>
  \<open>processTransaction\<close>: after the switch, \<open>processDeposit\<close> unless the transaction
  registers a producer, and then \<open>processCancelVotes\<close>.
\<close>

definition processTransaction ::
  "Env \<Rightarrow> ChainParams \<Rightarrow> Transaction \<Rightarrow> uint32 \<Rightarrow> State \<Rightarrow> error + State" where
  "processTransaction env cp tx height s =
     bindE (processTransaction_switch env cp tx height s)
       (\<lambda>r. case r of
               Return s1 \<Rightarrow> Inr s1
             | Continue s1 \<Rightarrow>
                 bindE (if TxType tx \<noteq> RegisterProducer
                        then processDeposit env tx height s1 else Inr s1)
                   (processCancelVotes env tx height))"

section \<open>The transactions of a block\<close>

definition ActivateDuration :: uint32 where
  "ActivateDuration = 6"

definition activateProducerFromPending :: "string \<Rightarrow> addr \<Rightarrow> uint32 \<Rightarrow> State \<Rightarrow> error + State" where
  "activateProducerFromPending key producer height s =
     History_Append height
       (\<lambda>f. let f1 = updProducer producer (\<lambda>p. p\<lparr>state := Active\<rparr>) f;
                 f2 = f1\<lparr>ActivityProducers := AList.update key producer (ActivityProducers f1)\<rparr>;
                 f3 = (if StakeUntil (info (heap f2 producer)) \<noteq> 0
                       then f2\<lparr>DposV2ActivityProducers :=
                                AList.update key producer (DposV2ActivityProducers f2)\<rparr>
                       else f2)
             in Inr (f3\<lparr>PendingProducers := AList.delete key (PendingProducers f3)\<rparr>))
       (\<lambda>f. let f1 = updProducer producer (\<lambda>p. p\<lparr>state := Pending\<rparr>) f;
                 f2 = f1\<lparr>PendingProducers := AList.update key producer (PendingProducers f1)\<rparr>;
                 f3 = f2\<lparr>ActivityProducers := AList.delete key (ActivityProducers f2)\<rparr>
             in if StakeUntil (info (heap f3 producer)) \<noteq> 0
                then Inr (f3\<lparr>DposV2ActivityProducers :=
                               AList.delete key (DposV2ActivityProducers f3)\<rparr>)
                else Inr f3)
       s"

definition activateProducerFromInactive :: "string \<Rightarrow> addr \<Rightarrow> uint32 \<Rightarrow> State \<Rightarrow> error + State" where
  "activateProducerFromInactive key producer height s =
     History_Append height
       (\<lambda>f. let f1 = updProducer producer (\<lambda>p. p\<lparr>state := Active\<rparr>) f;
                 f2 = f1\<lparr>ActivityProducers := AList.update key producer (ActivityProducers f1)\<rparr>;
                 f3 = (if StakeUntil (info (heap f2 producer)) \<noteq> 0
                       then f2\<lparr>DposV2ActivityProducers :=
                                AList.update key producer (DposV2ActivityProducers f2)\<rparr>
                       else f2)
             in Inr (f3\<lparr>InactiveProducers := AList.delete key (InactiveProducers f3)\<rparr>))
       (\<lambda>f. let f1 = updProducer producer (\<lambda>p. p\<lparr>state := Inactive\<rparr>) f;
                 f2 = f1\<lparr>InactiveProducers := AList.update key producer (InactiveProducers f1)\<rparr>;
                 f3 = f2\<lparr>ActivityProducers := AList.delete key (ActivityProducers f2)\<rparr>
             in if StakeUntil (info (heap f3 producer)) \<noteq> 0
                then Inr (f3\<lparr>DposV2ActivityProducers :=
                               AList.delete key (DposV2ActivityProducers f3)\<rparr>)
                else Inr f3)
       s"

definition activateProducerFromIllegal :: "string \<Rightarrow> addr \<Rightarrow> uint32 \<Rightarrow> State \<Rightarrow> error + State" where
  "activateProducerFromIllegal key producer height s =
     History_Append height
       (\<lambda>f. let f1 = updProducer producer (\<lambda>p. p\<lparr>state := Active\<rparr>) f;
                 f2 = f1\<lparr>ActivityProducers := AList.update key producer (ActivityProducers f1)\<rparr>;
                 f3 = (if StakeUntil (info (heap f2 producer)) \<noteq> 0
                       then f2\<lparr>DposV2ActivityProducers :=
                                AList.update key producer (DposV2ActivityProducers f2)\<rparr>
                       else f2)
             in Inr (f3\<lparr>IllegalProducers := AList.delete key (IllegalProducers f3)\<rparr>))
       (\<lambda>f. let f1 = updProducer producer (\<lambda>p. p\<lparr>state := Illegal\<rparr>) f;
                 f2 = f1\<lparr>IllegalProducers := AList.update key producer (IllegalProducers f1)\<rparr>;
                 f3 = f2\<lparr>ActivityProducers := AList.delete key (ActivityProducers f2)\<rparr>
             in if StakeUntil (info (heap f3 producer)) \<noteq> 0
                then Inr (f3\<lparr>DposV2ActivityProducers :=
                               AList.delete key (DposV2ActivityProducers f3)\<rparr>)
                else Inr f3)
       s"

text \<open>
  \<open>processTransactions\<close>: every transaction, then the promotion of pending, inactive and
  illegal producers, then the return to DPoS at the work height.  Each promotion loop
  ranges over the map as it is when the loop starts.
\<close>

definition processTransactions ::
  "Env \<Rightarrow> ChainParams \<Rightarrow> Transaction list \<Rightarrow> uint32 \<Rightarrow> State \<Rightarrow> error + State" where
  "processTransactions env cp txs height s =
     bindE (forEach txs (\<lambda>tx. processTransaction env cp tx height) s)
       (\<lambda>s1.
     bindE (forEach (PendingProducers (frame s1))
              (\<lambda>(key, producer) s'.
                 if ActivateDuration \<le> height - registerHeight (heap (frame s') producer) + 1
                 then activateProducerFromPending key producer height s' else Inr s') s1)
       (\<lambda>s2.
     bindE (forEach (InactiveProducers (frame s2))
              (\<lambda>(key, producer) s'.
                 if activateRequestHeight (heap (frame s') producer) < height \<and>
                    ActivateDuration \<le> height - activateRequestHeight (heap (frame s') producer) + 1
                 then activateProducerFromInactive key producer height s' else Inr s') s2)
       (\<lambda>s3.
     bindE (if EnableActivateIllegalHeight cp \<le> height
            then forEach (IllegalProducers (frame s3))
                   (\<lambda>(key, producer) s'.
                      if activateRequestHeight (heap (frame s') producer) < height \<and>
                         ActivateDuration \<le>
                           height - activateRequestHeight (heap (frame s') producer) + 1
                      then activateProducerFromIllegal key producer height s' else Inr s') s3
            else Inr s3)
       (\<lambda>s4.
          if DPOSWorkHeight (frame s4) \<noteq> 0 \<and> DPOSWorkHeight (frame s4) \<le> height \<and>
             ConsensusAlgorithm (frame s4) = POW
          then History_Append height
                 (\<lambda>f. Inr (f\<lparr>ConsensusAlgorithm := DPOS\<rparr>))
                 (\<lambda>f. Inr (f\<lparr>ConsensusAlgorithm := POW\<rparr>)) s4
          else Inr s4))))"

section \<open>Starting values\<close>

text \<open>
  Modelled from the spec: \<open>NewStateKeyFrame\<close> is not among the sources.  The frame starts
  with every map empty and every flag and height at Go's zero value.
\<close>

definition NewStateKeyFrame :: StateKeyFrame where
  "NewStateKeyFrame =
     \<lparr>heap = (\<lambda>a. zeroProducer), nextAddr = 0, NodeOwnerKeys = [], PendingProducers = [],
      ActivityProducers = [], DposV2ActivityProducers = [], InactiveProducers = [],
      CanceledProducers = [], PendingCanceledProducers = [], IllegalProducers = [],
      DposV2EffectedProducers = [], Nicknames = {}, ProducerDepositMap = {},
      DepositOutputs = Map.empty, VotesSet = {}, DposVotes = Map.empty, DposV2Votes = Map.empty,
      CRVotes = Map.empty, CRImpeachmentVotes = Map.empty, DposV2VoteRights = Map.empty,
      DetailDPoSV1Votes = Map.empty, SpecialTxHashes = {}, EmergencyInactiveArbiters = {},
      WithdrawableTxInfo = Map.empty, DposV2RewardInfo = Map.empty,
      DposV2RewardClaimingInfo = Map.empty, DposV2RewardClaimedInfo = Map.empty,
      CRHookCalls = [], ConsensusAlgorithm = DPOS, NoProducers = False,
      NoClaimDPOSNode = False, NeedNextTurnDPOSInfo = False, NeedRevertToDPOSTX = False,
      RevertToPOWBlockHeight = 0, VersionStartHeight = 0, VersionEndHeight = 0,
      DPOSWorkHeight = 0, DPOSStartHeight = 0, LastIrreversibleHeight = 0\<rparr>"

definition NewState :: State where
  "NewState = \<lparr>frame = NewStateKeyFrame, History = []\<rparr>"

text \<open>Chain parameters used in the worked examples.\<close>

definition exampleParams :: ChainParams where
  "exampleParams =
     \<lparr>CRCOnlyDPOSHeight = 10, RevertToPOWStartHeight = 100, ChangeCommitteeNewCRHeight = 50,
      EnableActivateIllegalHeight = 60, InactivePenalty = 100, EmergencyInactivePenalty = 500, IllegalPenalty = 200,
      DposV2EffectiveVotes = 8000, MinTransactionFee = 100\<rparr>"

text \<open>
  An environment for the worked examples: program hashes are the key or code behind a
  prefix byte (\<open>1f\<close> for deposits), refer keys are hex strings of the hashed fields, and
  the transaction references are given.
\<close>

definition exampleEnv :: "(nat \<rightharpoonup> Output) option \<Rightarrow> Env" where
  "exampleEnv references =
     \<lparr>PublicKeyToDepositProgramHash = (\<lambda>pk. Some (31 # pk)),
      PublicKeyToStandardProgramHash = (\<lambda>pk. Some (33 # pk)),
      StakeProgramHashOfCode = (\<lambda>code. Some (63 # code)),
      ToAddress = EncodeToString,
      IsDepositProgramHash = (\<lambda>h. take 1 h = [31]),
      OutPointReferKey = (\<lambda>txid index. EncodeToString (txid @ [ucast index])),
      InputReferKey = (\<lambda>input. EncodeToString (PreviousTxID input @ [ucast (PreviousIndex input)])),
      DetailedVoteInfoReferKey =
        (\<lambda>dvi. StakeProgramHash dvi @ TransactionHash dvi @
               VotesWithLockTime.Candidate (Info dvi)),
      GetTxReference = (\<lambda>tx. references),
      getCRMembers = None,
      MinDepositAmount = 5000\<rparr>"


section \<open>The nickname set\<close>








section \<open>Worked examples: data\<close>

text \<open>
  An active DPoS 2.0 producer with owner key \<open>03\<close> and node key \<open>04\<close>, and a frame in
  which stake \<open>07\<close> has voted 8000 for it at height 100, under refer key \<open>09\<close>.
\<close>

definition v2Producer :: Producer where
  "v2Producer =
     zeroProducer\<lparr>info := \<lparr>OwnerPublicKey = [3], NodePublicKey = [4], NickName = ''carol'',
                             StakeUntil = 9000\<rparr>,
                   state := Active, registerHeight := 10, activateRequestHeight := MaxUint32\<rparr>"

definition votedDetail :: DetailedVoteInfo where
  "votedDetail =
     \<lparr>StakeProgramHash = [7], TransactionHash = [8], BlockHeight = 100, PayloadVersion = 0,
      DetailedVoteInfo.VoteType = DposV2,
      Info = \<lparr>VotesWithLockTime.Candidate = [3], VotesWithLockTime.Votes = 8000,
              LockTime = 7400\<rparr>\<rparr>"

definition votedFrame :: StateKeyFrame where
  "votedFrame =
     NewStateKeyFrame
       \<lparr>heap := (heap NewStateKeyFrame)
          (0 := v2Producer\<lparr>dposV2Votes := 8000,
                 detailedDPoSV2Votes := Some (Map.empty([7] \<mapsto> Map.empty([9] \<mapsto> votedDetail)))\<rparr>),
        nextAddr := 1,
        NodeOwnerKeys := [(EncodeToString [4], EncodeToString [3])],
        ActivityProducers := [(EncodeToString [3], 0)],
        DposV2ActivityProducers := [(EncodeToString [3], 0)],
        Nicknames := {''carol''}\<rparr>"

text \<open>A renewal of that vote with a new lock time.\<close>

definition renewal :: "uint32 \<Rightarrow> RenewalVotesContent" where
  "renewal lockTime =
     \<lparr>ReferKey = [9],
      VotesInfo = \<lparr>VotesWithLockTime.Candidate = [3], VotesWithLockTime.Votes = 8000,
                   LockTime = lockTime\<rparr>\<rparr>"


text \<open>The panic that ends a run, if there is one.\<close>

definition panicOf :: "error + 'a \<Rightarrow> error option" where
  "panicOf r = (case r of Inl e \<Rightarrow> Some e | Inr x \<Rightarrow> None)"

text \<open>Reading one producer of a state.\<close>

definition producerAt :: "addr \<Rightarrow> State \<Rightarrow> Producer" where
  "producerAt a s = heap (frame s) a"

text \<open>
  Modelled from the spec: a rollback executes the \<open>undo\<close> closures in the reverse of the
  order in which they were appended.  \<open>undoLast\<close> executes the newest one and drops it.
\<close>

definition undoLast :: "State \<Rightarrow> error + State" where
  "undoLast s =
     (case rev (History s) of
        [] \<Rightarrow> Inr s
      | (height, do_fn, undo_fn) # older \<Rightarrow>
          bindE (undo_fn (frame s)) (\<lambda>f. Inr (s\<lparr>frame := f, History := rev older\<rparr>)))"

definition emptyTx :: Transaction where
  "emptyTx = \<lparr>TxType = TransferAsset, Version = 9, Transaction.PayloadVersion = 0,
              Transaction.Payload = OtherPayload, Inputs = [], Outputs = [], Programs = [],
              Hash = [], SpecialTxHash = None\<rparr>"

text \<open>
  A Voting transaction signed by the stake code \<open>07\<close>, and a DPoS 2.0 content and a
  renewal content that name the candidate \<open>05\<close>, which is no producer.
\<close>

definition votingTx :: "VotesContent list \<Rightarrow> RenewalVotesContent list \<Rightarrow> 8 word \<Rightarrow> Transaction" where
  "votingTx contents renewals pv =
     emptyTx\<lparr>TxType := Voting, Transaction.PayloadVersion := pv,
             Transaction.Payload := VotingPayload contents renewals,
             Programs := [\<lparr>Program.Code = [7], Parameter = []\<rparr>], Hash := [8]\<rparr>"

definition unknownContent :: VotesContent where
  "unknownContent =
     \<lparr>VotesContent.VoteType = DposV2,
      VotesContent.VotesInfo =
        [\<lparr>VotesWithLockTime.Candidate = [5], VotesWithLockTime.Votes = 8000,
          LockTime = 7701\<rparr>]\<rparr>"

definition unknownRenewal :: RenewalVotesContent where
  "unknownRenewal =
     \<lparr>ReferKey = [9],
      VotesInfo = \<lparr>VotesWithLockTime.Candidate = [5], VotesWithLockTime.Votes = 8000,
                   LockTime = 50\<rparr>\<rparr>"

text \<open>
  The producer \<open>03\<close> inactive since height 90; it asks for activation at height 100 and
  is active again after block 105.  Then an illegal-block evidence names its node key.
\<close>

definition inactiveFrame :: StateKeyFrame where
  "inactiveFrame =
     NewStateKeyFrame
       \<lparr>heap := (heap NewStateKeyFrame)
          (0 := v2Producer\<lparr>state := Inactive, inactiveSince := 90\<rparr>),
        nextAddr := 1,
        NodeOwnerKeys := [(EncodeToString [4], EncodeToString [3])],
        InactiveProducers := [(EncodeToString [3], 0)],
        Nicknames := {''carol''}\<rparr>"

definition activateTx :: Transaction where
  "activateTx = emptyTx\<lparr>TxType := ActivateProducer,
      Transaction.Payload := ActivateProducerPayload [4], Hash := [13]\<rparr>"

definition reactivated :: "error + State" where
  "reactivated =
     bindE (processTransactions (exampleEnv None) exampleParams [activateTx] 100
              (NewState\<lparr>frame := inactiveFrame\<rparr>))
       (forEach [101, 102, 103, 104, 105]
          (processTransactions (exampleEnv None) exampleParams []))"

definition evidencePayload :: Payload where
  "evidencePayload = DPOSIllegalBlocksPayload [[4]] [[4]]"

text \<open>
  The producer \<open>03\<close> active with 1000 votes from a live vote output, output 0 of the
  transaction \<open>0b\<close>; and a transaction that registers the producer \<open>05\<close> with a deposit
  of 5000 and spends that vote output.
\<close>

definition spentVote :: Output where
  "spentVote =
     \<lparr>Value = 1000, ProgramHash = [33, 9], Type = OTVote,
      Output.Payload = VoteOutputPayload
        \<lparr>VoteOutput.Version = 0,
         Contents = [\<lparr>VoteContent.VoteType = Delegate,
                      CandidateVotes = [\<lparr>CandidateVotes.Candidate = [3],
                                         CandidateVotes.Votes = 1000\<rparr>]\<rparr>]\<rparr>\<rparr>"

definition v1VotedFrame :: StateKeyFrame where
  "v1VotedFrame =
     NewStateKeyFrame
       \<lparr>heap := (heap NewStateKeyFrame)(0 := v2Producer\<lparr>votes := 1000\<rparr>),
        nextAddr := 1,
        NodeOwnerKeys := [(EncodeToString [4], EncodeToString [3])],
        ActivityProducers := [(EncodeToString [3], 0)],
        DposV2ActivityProducers := [(EncodeToString [3], 0)],
        Nicknames := {''carol''},
        VotesSet := {EncodeToString [11, 0]}\<rparr>"

definition registerTx :: Transaction where
  "registerTx =
     emptyTx\<lparr>TxType := RegisterProducer,
       Transaction.Payload := ProducerInfoPayload
         \<lparr>OwnerPublicKey = [5], NodePublicKey = [6], NickName = ''dave'', StakeUntil = 0\<rparr>,
       Inputs := [\<lparr>PreviousTxID = [11], PreviousIndex = 0, Sequence = 0\<rparr>],
       Outputs := [\<lparr>Value = 5000, ProgramHash = [31, 5], Type = OTNone,
                    Output.Payload = DefaultOutput\<rparr>],
       Hash := [12]\<rparr>"



section \<open>Properties\<close>

lemma hex_examples:
  "EncodeToString [3] = ''03''" "EncodeToString [4] = ''04''" "EncodeToString [5] = ''05''"
  "EncodeToString [6] = ''06''"
  by (simp_all add: EncodeToString_def hexdigit_def)

subsection \<open>The irreversible height\<close>




text \<open>
  C7, the claim as stated fails: at a block height not above \<open>CRCOnlyDPOSHeight\<close> the
  answer is false, here with 7 detached blocks before \<open>RevertToPOWStartHeight\<close>.
\<close>

theorem IsIrreversible_counterexample:
  "IsIrreversible exampleParams NewStateKeyFrame 9 7 = False \<and> (6::int) < 7 \<and>
   (9::uint32) < RevertToPOWStartHeight exampleParams"
  by (simp add: IsIrreversible_def exampleParams_def NewStateKeyFrame_def IrreversibleHeight_def)

text \<open>
  C7, amended.  \<open>IsIrreversible\<close> is true exactly when the current height is above
  \<open>CRCOnlyDPOSHeight\<close> and either \<open>cur - detach - 1\<close>, computed in 32 bits with
  wrap-around, is at most the last irreversible height, or more than 6 blocks are
  detached and the height is below \<open>RevertToPOWStartHeight\<close> or the consensus is DPoS.
\<close>

theorem IsIrreversible_iff:
  "IsIrreversible cp f cur d \<longleftrightarrow>
     CRCOnlyDPOSHeight cp < cur \<and>
     (cur - word_of_int d - 1 \<le> LastIrreversibleHeight f \<or>
      (6 < d \<and> (cur < RevertToPOWStartHeight cp \<or> ConsensusAlgorithm f = DPOS)))"
  by (auto simp: IsIrreversible_def IrreversibleHeight_def not_le not_less)

subsection \<open>The penalty of an inactive producer\<close>

text \<open>
  C8, the claim as stated fails: on the emergency path the penalty is added below
  \<open>ChangeCommitteeNewCRHeight\<close> too, here at height 20 with the new-committee height 50.
\<close>

theorem setInactiveProducer_counterexample:
  "penalty (heap (setInactiveProducer exampleParams 0 ''03'' 20 True NewStateKeyFrame) 0) = 500 \<and>
   penalty (heap NewStateKeyFrame 0) = 0 \<and>
   \<not> ChangeCommitteeNewCRHeight exampleParams \<le> (20::uint32)"
  by (simp add: setInactiveProducer_def updProducer_def Let_def exampleParams_def
      NewStateKeyFrame_def zeroProducer_def)

text \<open>
  C8, amended.  Setting a producer inactive adds to its penalty, when the height is
  outside the window from \<open>VersionStartHeight\<close> to \<open>VersionEndHeight\<close>:
  \<open>EmergencyInactivePenalty\<close> on the emergency path, at any height, and
  \<open>InactivePenalty\<close> on the ordinary path if the height has reached
  \<open>ChangeCommitteeNewCRHeight\<close>.  In every other case the penalty is unchanged.
\<close>

theorem setInactiveProducer_penalty:
  "penalty (heap (setInactiveProducer cp a key h em f) a) =
     penalty (heap f a) +
       (if h < VersionStartHeight f \<or> VersionEndHeight f \<le> h
        then (if em then EmergencyInactivePenalty cp
              else if ChangeCommitteeNewCRHeight cp \<le> h then InactivePenalty cp else 0)
        else 0)"
  by (simp add: setInactiveProducer_def updProducer_def Let_def)

subsection \<open>Checks of a Voting transaction\<close>





text \<open>
  C5.  The renewal check compares the wrong way round: a renewal whose lock time 50 is
  not above the block height 100 of the recorded vote passes, and one whose lock time
  9000 is above it is rejected as an invalid lock time.
\<close>

theorem checkRenewalContent_lock_time:
  "checkRenewalContent votedFrame [7] (renewal 50) = Inr () \<and>
   checkRenewalContent votedFrame [7] (renewal 9000) = Inl (CheckFailed ''invalid lock time'') \<and>
   BlockHeight votedDetail = 100"
  by (simp add: checkRenewalContent_def getProducer_def getProducerKey_def
      getProducerByOwnerPublicKey_def GetDetailedDPoSV2Votes_def votedFrame_def renewal_def
      votedDetail_def v2Producer_def zeroProducer_def NewStateKeyFrame_def hex_examples)

subsection \<open>Panics\<close>

text \<open>
  C3.  A Voting transaction whose DPoS 2.0 content names a candidate that is no producer
  panics in \<open>getDPoSV2Producer\<close>, and so does a renewal that names one: the handler does
  not return.
\<close>

theorem processTransaction_unknown_candidate_panics:
  "panicOf (processTransaction (exampleEnv None) exampleParams
              (votingTx [unknownContent] [] VoteVersion) 501 (NewState\<lparr>frame := votedFrame\<rparr>))
     = Some NilPointerDereference \<and>
   panicOf (processTransaction (exampleEnv None) exampleParams
              (votingTx [] [unknownRenewal] RenewalVoteVersion) 501
              (NewState\<lparr>frame := votedFrame\<rparr>))
     = Some NilPointerDereference"
  by code_simp

subsection \<open>Undo closures\<close>

text \<open>
  C1.  The producer \<open>03\<close>, active again after block 105, holds the activation request
  height 100.  After the illegal evidence of height 200 and the undo of its history
  entry the producer is active with its old penalty, and its activation request height
  is \<open>math.MaxUint32\<close>: the undo closure is not the inverse of the do closure.
\<close>

theorem processIllegalEvidence_undo_not_inverse:
  "map_sum id (activateRequestHeight \<circ> producerAt 0) reactivated = Inr 100 \<and>
   map_sum id (state \<circ> producerAt 0) reactivated = Inr Active \<and>
   map_sum id (state \<circ> producerAt 0)
     (bindE reactivated
        (processIllegalEvidence (exampleEnv None) exampleParams evidencePayload 200))
     = Inr Illegal \<and>
   map_sum id (state \<circ> producerAt 0)
     (bindE (bindE reactivated
               (processIllegalEvidence (exampleEnv None) exampleParams evidencePayload 200))
        undoLast) = Inr Active \<and>
   map_sum id (activateRequestHeight \<circ> producerAt 0)
     (bindE (bindE reactivated
               (processIllegalEvidence (exampleEnv None) exampleParams evidencePayload 200))
        undoLast) = Inr MaxUint32"
  by code_simp

subsection \<open>The tail steps of a transaction\<close>

text \<open>
  C9, the claim as stated fails: the transaction that registers the producer \<open>05\<close> and
  spends the vote output runs \<open>processCancelVotes\<close>, which takes the 1000 votes from the
  producer \<open>03\<close>; \<open>processDeposit\<close> does not run, the deposit of the new producer is
  counted once.
\<close>

theorem processTransaction_register_counterexample:
  "TxType registerTx = RegisterProducer \<and>
   votes (producerAt 0 (NewState\<lparr>frame := v1VotedFrame\<rparr>)) = 1000 \<and>
   map_sum id (votes \<circ> producerAt 0)
     (processTransaction (exampleEnv (Some (Map.empty(0 \<mapsto> spentVote)))) exampleParams
        registerTx 300 (NewState\<lparr>frame := v1VotedFrame\<rparr>)) = Inr 0 \<and>
   map_sum id (totalAmount \<circ> producerAt 1)
     (processTransaction (exampleEnv (Some (Map.empty(0 \<mapsto> spentVote)))) exampleParams
        registerTx 300 (NewState\<lparr>frame := v1VotedFrame\<rparr>)) = Inr 5000"
  by code_simp

text \<open>
  C9, amended.  A transaction that registers a producer runs \<open>registerProducer\<close> and then
  \<open>processCancelVotes\<close>, without \<open>processDeposit\<close>.  For every other kind, when the switch
  neither panics nor returns early (as the evidence and inactive-arbitrators cases do when
  the special transaction hash cannot be computed), \<open>processDeposit\<close> runs and then
  \<open>processCancelVotes\<close>.
\<close>

theorem processTransaction_tail_steps:
  "processTransaction env cp tx height s =
     (if TxType tx = RegisterProducer
      then bindE (registerProducer env tx height s) (processCancelVotes env tx height)
      else
        (case processTransaction_switch env cp tx height s of
           Inl e \<Rightarrow> Inl e
         | Inr (Return s1) \<Rightarrow> Inr s1
         | Inr (Continue s1) \<Rightarrow>
             bindE (processDeposit env tx height s1) (processCancelVotes env tx height)))"
  by (auto simp: processTransaction_def processTransaction_switch_def bindE_def continue_def
      split: sum.splits flow.splits)

subsection \<open>Nicknames\<close>


subsection \<open>The Delegate content of a Voting transaction\<close>

















lemma map_of_mem: "map_of al k = Some a \<Longrightarrow> (k, a) \<in> set al"
  by (rule map_of_SomeD)

lemma map_of_None_iff: "map_of al k = None \<longleftrightarrow> k \<notin> fst ` set al"
  by (simp add: map_of_eq_None_iff)



















end
